theory Spec2Isabelle
  imports Main "HOL-Library.Word"
begin

section \<open>find-guardduty-user: the data of \<open>main.go\<close>\<close>

text \<open>
  A Go \<^verbatim>\<open>*string\<close> is an optional string: \<open>None\<close> is the nil pointer.
  \<open>StringValue\<close> is \<^verbatim>\<open>aws.StringValue\<close>: the pointed-to string, or the empty
  string for nil.
\<close>

type_synonym strptr = "string option"

definition StringValue :: "strptr \<Rightarrow> string" where
  "StringValue p = (case p of None \<Rightarrow> [] | Some x \<Rightarrow> x)"

text \<open>
  Errors are values. \<open>External\<close> is an error handed back by a library (the AWS SDK, the
  flag parser, the JSON decoder); \<open>Wrapped msg e\<close> is
  \<^verbatim>\<open>fmt.Errorf("msg: %w", e)\<close> with the placeholders of \<open>msg\<close> filled in; \<open>Plain\<close> is
  \<^verbatim>\<open>errors.New\<close> or an \<^verbatim>\<open>Errorf\<close> without \<^verbatim>\<open>%w\<close>; \<open>ExpectedExactlyOneEvent n\<close> is
  \<^verbatim>\<open>fmt.Errorf("Expected exactly one event, got %d", n)\<close>.
\<close>

datatype error =
    External string
  | ErrInvalidPartition string
  | ErrInvalidRegion string
  | ErrInvalidOutput string
  | Plain string
  | ExpectedExactlyOneEvent nat
  | Wrapped string error

text \<open>
  What \<^verbatim>\<open>json.Unmarshal\<close> stores in a \<^verbatim>\<open>map[string]interface{}\<close>. Numbers are
  \<^verbatim>\<open>float64\<close> values, kept as their 64 bits: the program never inspects one. A Go map is an association
  list read with \<open>map_of\<close>. The same type describes the object that
  \<^verbatim>\<open>json.Marshal\<close> writes for a \<^verbatim>\<open>FindingDetail\<close>.
\<close>

datatype float64 = Float64 "64 word"

datatype jvalue =
    JNull
  | JBool bool
  | JNumber float64
  | JString string
  | JArray "jvalue list"
  | JObject "(string \<times> jvalue) list"

text \<open>\<^verbatim>\<open>type FindingDetail struct\<close> (main.go, lines 24 to 36).\<close>

record FindingDetail =
  ID :: strptr
  CreatedAt :: strptr
  AccessKeyID :: strptr
  PrincipalID :: strptr
  AssumedRoleARN :: strptr
  Username :: strptr
  IPAddress :: strptr
  ServiceName :: strptr
  API :: strptr
  City :: strptr
  Country :: strptr

text \<open>
  The parts of the SDK's \<^verbatim>\<open>guardduty.Finding\<close> and \<^verbatim>\<open>cloudtrail.Event\<close> that the
  program reads. Every nested struct is held through a pointer, so every level is
  optional. Field names carry the name of their struct.
\<close>

record guardduty_City =
  City_CityName :: strptr

record guardduty_Country =
  Country_CountryName :: strptr

record guardduty_RemoteIpDetails =
  RemoteIpDetails_City :: "guardduty_City option"
  RemoteIpDetails_Country :: "guardduty_Country option"
  RemoteIpDetails_IpAddressV4 :: strptr

record guardduty_AwsApiCallAction =
  AwsApiCallAction_Api :: strptr
  AwsApiCallAction_RemoteIpDetails :: "guardduty_RemoteIpDetails option"
  AwsApiCallAction_ServiceName :: strptr

record guardduty_Action =
  Action_AwsApiCallAction :: "guardduty_AwsApiCallAction option"

record guardduty_Service =
  Service_Action :: "guardduty_Action option"

record guardduty_AccessKeyDetails =
  AccessKeyDetails_AccessKeyId :: strptr
  AccessKeyDetails_PrincipalId :: strptr

record guardduty_Resource =
  Resource_AccessKeyDetails :: "guardduty_AccessKeyDetails option"

record guardduty_Finding =
  Finding_Id :: strptr
  Finding_CreatedAt :: strptr
  Finding_Resource :: "guardduty_Resource option"
  Finding_Service :: "guardduty_Service option"

record cloudtrail_Event =
  Event_CloudTrailEvent :: strptr
  Event_Username :: strptr

text \<open>The requests and responses of the four remote operations.\<close>

record guardduty_ListFindingsInput =
  ListFindingsInput_DetectorId :: strptr
  ListFindingsInput_FindingCriteria :: "(string \<times> string list) list"
  ListFindingsInput_NextToken :: strptr

record guardduty_ListFindingsOutput =
  ListFindingsOutput_FindingIds :: "strptr list"
  ListFindingsOutput_NextToken :: strptr

record guardduty_GetFindingsInput =
  GetFindingsInput_DetectorId :: strptr
  GetFindingsInput_FindingIds :: "strptr list"

record guardduty_GetFindingsOutput =
  GetFindingsOutput_Findings :: "guardduty_Finding option list"

record cloudtrail_LookupEventsInput =
  LookupEventsInput_LookupAttributes :: "(string \<times> string) list"
  LookupEventsInput_MaxResults :: int

text \<open>
  The flag values as viper returns them (\<^verbatim>\<open>initFlags\<close>, lines 105 to 129).
\<close>

record viper =
  AWSGuardDutyPartitionFlag :: string
  AWSGuardDutyRegionFlag :: string
  ArchivedFlag :: bool
  OutputFlag :: string
  VerboseFlag :: bool

text \<open>
  Everything outside the program. The remote services are oracles over a world state
  \<open>'w\<close> that they may change, so the same request can be answered differently at
  different times. \<open>GetFindings\<close> returns the output struct together with the error: the
  program reads the output even when the error is set (line 419), and the SDK allocates
  the output before it sends the request. \<open>RegionsForService\<close> is the SDK's endpoint
  table for the GuardDuty service, \<open>None\<close> when the partition is unknown.
  \<open>jsonUnmarshal\<close> is \<^verbatim>\<open>json.Unmarshal\<close> into a \<^verbatim>\<open>map[string]interface{}\<close>.
\<close>

record 'w env =
  ParseFlags :: "error option"
  BindPFlags :: "error option"
  RegionsForService :: "string \<Rightarrow> string list option"
  credsGet :: "error option"
  NewSession :: "error option"
  ListDetectors :: "'w \<Rightarrow> (error + strptr list) \<times> 'w"
  ListFindings :: "guardduty_ListFindingsInput \<Rightarrow> 'w \<Rightarrow> (error + guardduty_ListFindingsOutput) \<times> 'w"
  GetFindings :: "guardduty_GetFindingsInput \<Rightarrow> 'w \<Rightarrow> (guardduty_GetFindingsOutput \<times> error option) \<times> 'w"
  LookupEvents :: "cloudtrail_LookupEventsInput \<Rightarrow> 'w \<Rightarrow> (error + cloudtrail_Event option list) \<times> 'w"
  jsonUnmarshal :: "string \<Rightarrow> error + (string \<times> jvalue) list"

text \<open>
  What the program writes to standard output, one entry per \<^verbatim>\<open>Println\<close>, named after
  the place that writes it: a logged error, the debug line for a skipped finding, the
  JSON object of \<open>PrintJSON\<close>, the text block of \<open>Print\<close>, and the panic value printed by
  the deferred \<^verbatim>\<open>recover\<close>. (With debug logging the logger prefixes each line with the
  date and time; the prefix is left out.)
\<close>

datatype printed =
    ErrorLine error
  | DebugLine string
  | JSONLine "(string \<times> jvalue) list"
  | TextBlock string
  | PanicLine

text \<open>
  The remote calls made so far, each with the answer it received. The trace is not
  in the program: it is kept so that properties about which calls are made can be stated.
\<close>

datatype call =
    ListDetectorsCall
  | ListFindingsCall guardduty_ListFindingsInput
  | GetFindingsCall guardduty_GetFindingsInput
  | LookupEventsCall cloudtrail_LookupEventsInput "error + cloudtrail_Event option list"

record 'w state =
  world :: 'w
  out :: "printed list"
  calls :: "call list"

definition Println :: "printed \<Rightarrow> 'w state \<Rightarrow> 'w state" where
  "Println x s = s\<lparr>out := out s @ [x]\<rparr>"

text \<open>A Go function either returns or panics (here: dereferences a nil pointer).\<close>

datatype 'a result = Ret 'a | Panic

section \<open>Output: \<open>PrintJSON\<close> and \<open>Print\<close>\<close>

text \<open>
  \<^verbatim>\<open>json.Marshal\<close> of a \<^verbatim>\<open>FindingDetail\<close>, by the struct tags of lines 25 to 35: a field
  without \<^verbatim>\<open>omitempty\<close> is always written (\<^verbatim>\<open>null\<close> for a nil pointer); a pointer field
  with \<^verbatim>\<open>omitempty\<close> is left out when the pointer is nil.
\<close>

definition always :: "string \<Rightarrow> strptr \<Rightarrow> (string \<times> jvalue) list" where
  "always name p = [(name, case p of None \<Rightarrow> JNull | Some x \<Rightarrow> JString x)]"

definition omitempty :: "string \<Rightarrow> strptr \<Rightarrow> (string \<times> jvalue) list" where
  "omitempty name p = (case p of None \<Rightarrow> [] | Some x \<Rightarrow> [(name, JString x)])"

definition Marshal :: "FindingDetail \<Rightarrow> (string \<times> jvalue) list" where
  "Marshal fd =
     always ''id'' (ID fd) @
     always ''createdAt'' (CreatedAt fd) @
     omitempty ''accessKeyID'' (AccessKeyID fd) @
     omitempty ''principalID'' (PrincipalID fd) @
     always ''assumeRoleARN'' (AssumedRoleARN fd) @
     always ''username'' (Username fd) @
     omitempty ''ipAddress'' (IPAddress fd) @
     omitempty ''serviceName'' (ServiceName fd) @
     omitempty ''api'' (API fd) @
     omitempty ''city'' (City fd) @
     omitempty ''country'' (Country fd)"

text \<open>
  \<open>PrintJSON\<close> (lines 39 to 47). Marshalling a struct of string pointers cannot fail, so
  the function logs the object and returns no error.
\<close>

definition PrintJSON :: "FindingDetail \<Rightarrow> 'w state \<Rightarrow> error option \<times> 'w state" where
  "PrintJSON fd s = (None, Println (JSONLine (Marshal fd)) s)"

text \<open>
  \<open>Print\<close> (lines 50 to 76): the template, with \<open>nl\<close> for the line breaks in it, and
  \<open>Sprintf\<close> for the \<^verbatim>\<open>fmt.Sprintf\<close> of the template with the eleven field values.
\<close>

definition nl :: string where
  "nl = [CHR 0x0A]"

definition template :: "string list \<Rightarrow> string" where
  "template a =
     nl @ ''Finding ID:         '' @ a ! 0 @
     nl @ ''Finding Created At: '' @ a ! 1 @
     nl @ ''Access Key ID:      '' @ a ! 2 @
     nl @ ''Principal ID:       '' @ a ! 3 @
     nl @ ''Assumed Role ARN:   '' @ a ! 4 @
     nl @ ''Username:           '' @ a ! 5 @
     nl @ ''IPv4:               '' @ a ! 6 @
     nl @ ''Service Name:       '' @ a ! 7 @
     nl @ ''API:                '' @ a ! 8 @
     nl @ ''City, Country:      '' @ a ! 9 @ '', '' @ a ! 10"

definition Sprintf :: "FindingDetail \<Rightarrow> string" where
  "Sprintf fd =
     template
       [StringValue (ID fd),
        StringValue (CreatedAt fd),
        StringValue (AccessKeyID fd),
        StringValue (PrincipalID fd),
        StringValue (AssumedRoleARN fd),
        StringValue (Username fd),
        StringValue (IPAddress fd),
        StringValue (ServiceName fd),
        StringValue (API fd),
        StringValue (City fd),
        StringValue (Country fd)]"

definition Print :: "FindingDetail \<Rightarrow> 'w state \<Rightarrow> 'w state" where
  "Print fd s = Println (TextBlock (Sprintf fd)) s"

section \<open>Configuration checks\<close>

text \<open>\<open>checkRegion\<close> (lines 131 to 153).\<close>

definition checkRegion :: "'w env \<Rightarrow> viper \<Rightarrow> error option" where
  "checkRegion e v =
     (case RegionsForService e (AWSGuardDutyPartitionFlag v) of
        None \<Rightarrow> Some (Plain ''could not find regions for service guardduty'')
      | Some regions \<Rightarrow>
          let p = AWSGuardDutyPartitionFlag v in
          if length p = 0
          then Some (Wrapped ''aws-guardduty-partition is invalid'' (ErrInvalidPartition p))
          else
            let r = AWSGuardDutyRegionFlag v in
            if length r = 0
            then Some (Wrapped ''aws-guardduty-region is invalid'' (ErrInvalidRegion r))
            else if r \<notin> set regions
            then Some (Wrapped ''aws-guardduty-region is invalid'' (ErrInvalidRegion r))
            else None)"

text \<open>\<open>checkOutput\<close> (lines 155 to 165).\<close>

definition checkOutput :: "viper \<Rightarrow> error option" where
  "checkOutput v =
     (let outputs = [(''text'', ''text''), (''json'', ''json'')];
          p = OutputFlag v
      in case map_of outputs p of
           None \<Rightarrow> Some (Wrapped ''output is invalid'' (ErrInvalidOutput p))
         | Some _ \<Rightarrow> None)"

text \<open>\<open>checkConfig\<close> (lines 167 to 180).\<close>

definition checkConfig :: "'w env \<Rightarrow> viper \<Rightarrow> error option" where
  "checkConfig e v =
     (case checkRegion e v of
        Some err \<Rightarrow> Some (Wrapped ''Region check failed'' err)
      | None \<Rightarrow>
          (case checkOutput v of
             Some err \<Rightarrow> Some (Wrapped ''Output check failed'' err)
           | None \<Rightarrow> None))"

section \<open>The identity resolver\<close>

text \<open>
  \<open>LookupEvent\<close> (lines 183 to 201). The key is the address of a local variable and the
  value has been checked against nil by every caller, so both are strings here. The
  function returns the first element of the event list, which is itself a pointer.
\<close>

definition quote :: string where
  "quote = [CHR 0x27]"

definition LookupEvent ::
  "'w env \<Rightarrow> string \<Rightarrow> string \<Rightarrow> 'w state \<Rightarrow> (error + cloudtrail_Event option) \<times> 'w state" where
  "LookupEvent e key val s =
     (let maxResults = 1;
          lookupEventsInput =
            \<lparr>LookupEventsInput_LookupAttributes = [(key, val)],
             LookupEventsInput_MaxResults = maxResults\<rparr>;
          (answer, w) = LookupEvents e lookupEventsInput (world s);
          s' = s\<lparr>world := w, calls := calls s @ [LookupEventsCall lookupEventsInput answer]\<rparr>
      in case answer of
           Inl err \<Rightarrow>
             (Inl (Wrapped
                (''LookupEvents failed with Attribute Key '' @ quote @ key @ quote @
                 '' and Attribute Value '' @ quote @ val @ quote) err), s')
         | Inr events \<Rightarrow>
             if length events \<noteq> 1
             then (Inl (ExpectedExactlyOneEvent (length events)), s')
             else (Inr (events ! 0), s'))"

text \<open>
  \<open>GetRoleAndUser\<close> (lines 204 to 227). The three results are the role ARN, the user
  name and the error. Reading \<^verbatim>\<open>event.CloudTrailEvent\<close> of a nil event panics.
\<close>

definition GetRoleAndUser ::
  "'w env \<Rightarrow> string \<Rightarrow> string \<Rightarrow> 'w state \<Rightarrow> (strptr \<times> strptr \<times> error option) result \<times> 'w state" where
  "GetRoleAndUser e key val s =
     (case LookupEvent e key val s of
        (Inl err, s') \<Rightarrow>
          (Ret (None, None,
             Some (Wrapped (''Unable to find CloudTrail event for '' @ key @ '' '' @ val) err)), s')
      | (Inr None, s') \<Rightarrow> (Panic, s')
      | (Inr (Some event), s') \<Rightarrow>
          (let dataStr = StringValue (Event_CloudTrailEvent event) in
           case jsonUnmarshal e dataStr of
             Inl err \<Rightarrow>
               (Ret (None, None,
                  Some (Wrapped ''Unable to unmarshal JSON data from CloudTrail event'' err)), s')
           | Inr data \<Rightarrow>
               (case map_of data ''userIdentity'' of
                  Some (JObject userIdentity) \<Rightarrow>
                    (case map_of userIdentity ''arn'' of
                       Some (JString roleArn) \<Rightarrow>
                         (let username =
                            (case map_of userIdentity ''userName'' of
                               Some (JString u) \<Rightarrow> u
                             | _ \<Rightarrow> [])
                          in (Ret (Some roleArn, Some username, None), s'))
                     | _ \<Rightarrow>
                         (Ret (None, None,
                            Some (Plain ''Could not retrieve arn from JSON object'')), s'))
                | _ \<Rightarrow>
                    (Ret (None, None,
                       Some (Plain ''Could not retrieve userIdentity from JSON object'')), s'))))"

text \<open>
  \<open>GetUser\<close> (lines 230 to 240). The caller has checked the role ARN against nil.
  Reading \<^verbatim>\<open>event.Username\<close> of a nil event panics.
\<close>

definition GetUser ::
  "'w env \<Rightarrow> string \<Rightarrow> 'w state \<Rightarrow> (strptr \<times> error option) result \<times> 'w state" where
  "GetUser e roleArn s =
     (let key = ''ResourceName'' in
      case LookupEvent e key roleArn s of
        (Inl err, s') \<Rightarrow>
          (Ret (None,
             Some (Wrapped (''Unable to find CloudTrail event for role arn '' @ roleArn) err)), s')
      | (Inr None, s') \<Rightarrow> (Panic, s')
      | (Inr (Some event), s') \<Rightarrow>
          (let username = StringValue (Event_Username event) in
           (Ret (Some username, None), s')))"

section \<open>\<open>findGuardDutyUserFunction\<close>\<close>

text \<open>
  The body of the loop over the findings of one page yields the state in which the loop
  goes on to the next finding, or the state in which it panicked.
\<close>

datatype 'w flow = Next "'w state" | Panicking "'w state"

fun flowState :: "'w flow \<Rightarrow> 'w state" where
  "flowState (Next s) = s"
| "flowState (Panicking s) = s"

text \<open>
  Lines 440 to 446: the fields copied from \<^verbatim>\<open>finding.Service\<close>. Each selector chain
  dereferences the pointers on its way; \<open>None\<close> is the panic of a nil one.
\<close>

definition serviceFields ::
  "guardduty_Service \<Rightarrow> FindingDetail \<Rightarrow> FindingDetail option" where
  "serviceFields service fd =
     (case Service_Action service of
        None \<Rightarrow> None
      | Some action \<Rightarrow>
     (case Action_AwsApiCallAction action of
        None \<Rightarrow> None
      | Some apiCall \<Rightarrow>
     (case AwsApiCallAction_RemoteIpDetails apiCall of
        None \<Rightarrow> None
      | Some remoteIp \<Rightarrow>
     (case RemoteIpDetails_City remoteIp of
        None \<Rightarrow> None
      | Some city \<Rightarrow>
     (case RemoteIpDetails_Country remoteIp of
        None \<Rightarrow> None
      | Some country \<Rightarrow>
          Some (fd\<lparr>IPAddress := RemoteIpDetails_IpAddressV4 remoteIp,
                   ServiceName := AwsApiCallAction_ServiceName apiCall,
                   API := AwsApiCallAction_Api apiCall,
                   City := City_CityName city,
                   Country := Country_CountryName country\<rparr>))))))"

text \<open>
  The guard of lines 452 and 460: the pointer is not nil, and the string is neither
  empty nor the placeholder of a generated sample finding. The result is the string.
\<close>

definition usable :: "strptr \<Rightarrow> string \<Rightarrow> string option" where
  "usable p placeholder =
     (case p of
        None \<Rightarrow> None
      | Some x \<Rightarrow> if x \<noteq> [] \<and> x \<noteq> placeholder then Some x else None)"

text \<open>
  Lines 432 to 446: the \<^verbatim>\<open>FindingDetail\<close> of a finding that has access key details.
  \<open>None\<close> is the panic of \<open>serviceFields\<close>.
\<close>

definition newFindingDetail ::
  "guardduty_Finding \<Rightarrow> guardduty_AccessKeyDetails \<Rightarrow> FindingDetail option" where
  "newFindingDetail finding details =
     (let fd = \<lparr>ID = Finding_Id finding,
                CreatedAt = Finding_CreatedAt finding,
                AccessKeyID = AccessKeyDetails_AccessKeyId details,
                PrincipalID = AccessKeyDetails_PrincipalId details,
                AssumedRoleARN = None, Username = None, IPAddress = None,
                ServiceName = None, API = None, City = None, Country = None\<rparr>
      in case Finding_Service finding of
           None \<Rightarrow> Some fd
         | Some service \<Rightarrow> serviceFields service fd)"

text \<open>Lines 488 to 496: the output in the format that the output flag selects.\<close>

definition printOutput :: "viper \<Rightarrow> FindingDetail \<Rightarrow> 'w state \<Rightarrow> 'w state" where
  "printOutput v fd s =
     (if OutputFlag v = ''json''
      then (case PrintJSON fd s of
              (Some err, s') \<Rightarrow>
                Println (ErrorLine (Wrapped ''Unable to marshal finding detail to JSON'' err)) s'
            | (None, s') \<Rightarrow> s')
      else Print fd s)"

text \<open>
  Lines 472 to 496, reached with the role ARN and the user name of the first lookup:
  the check of the ARN, the second lookup when there is no user name, and the output.
\<close>

definition finishFinding ::
  "'w env \<Rightarrow> viper \<Rightarrow> FindingDetail \<Rightarrow> strptr \<Rightarrow> strptr \<Rightarrow> 'w state \<Rightarrow> 'w flow" where
  "finishFinding e v fd roleArn username s =
     (case roleArn of
        None \<Rightarrow> Next s
      | Some arn \<Rightarrow>
          if arn = [] then Next s
          else
            (let fd1 = fd\<lparr>AssumedRoleARN := roleArn\<rparr>
             in if username = None \<or> username = Some []
                then (case GetUser e arn s of
                        (Panic, s') \<Rightarrow> Panicking s'
                      | (Ret (_, Some err), s') \<Rightarrow>
                          Next (Println (ErrorLine
                            (Wrapped ''Unable to find role username from role arn'' err)) s')
                      | (Ret (username2, None), s') \<Rightarrow>
                          Next (printOutput v (fd1\<lparr>Username := username2\<rparr>) s'))
                else Next (printOutput v (fd1\<lparr>Username := username\<rparr>) s)))"

text \<open>
  Lines 448 to 496: the resolver. The access key is tried first, then the principal
  id; a finding with neither is skipped.
\<close>

definition resolveFinding :: "'w env \<Rightarrow> viper \<Rightarrow> FindingDetail \<Rightarrow> 'w state \<Rightarrow> 'w flow" where
  "resolveFinding e v fd s =
     (case usable (AccessKeyID fd) ''GeneratedFindingAccessKeyId'' of
        Some accessKey \<Rightarrow>
          (case GetRoleAndUser e ''AccessKeyId'' accessKey s of
             (Panic, s') \<Rightarrow> Panicking s'
           | (Ret (_, _, Some err), s') \<Rightarrow>
               Next (Println (ErrorLine (Wrapped
                 ''Unable to find role arn and username from access key in finding'' err)) s')
           | (Ret (roleArn, username, None), s') \<Rightarrow>
               finishFinding e v fd roleArn username s')
      | None \<Rightarrow>
          (case usable (PrincipalID fd) ''GeneratedFindingPrincipalId'' of
             Some principalId \<Rightarrow>
               (case GetRoleAndUser e ''ResourceName'' principalId s of
                  (Panic, s') \<Rightarrow> Panicking s'
                | (Ret (_, _, Some err), s') \<Rightarrow>
                    Next (Println (ErrorLine (Wrapped
                      ''Unable to find role arn and username from principal ID in finding''
                      err)) s')
                | (Ret (roleArn, username, None), s') \<Rightarrow>
                    finishFinding e v fd roleArn username s')
           | None \<Rightarrow> Next s))"

text \<open>
  Lines 420 to 496: the body of the loop over the findings of one page. Reading
  \<^verbatim>\<open>finding.Resource.AccessKeyDetails\<close> of a finding without resource panics.
\<close>

definition processFinding ::
  "'w env \<Rightarrow> viper \<Rightarrow> guardduty_Finding option \<Rightarrow> 'w state \<Rightarrow> 'w flow" where
  "processFinding e v finding0 s =
     (case finding0 of
        None \<Rightarrow> Next s
      | Some finding \<Rightarrow>
          (case Finding_Resource finding of
             None \<Rightarrow> Panicking s
           | Some resource \<Rightarrow>
               (case Resource_AccessKeyDetails resource of
                  None \<Rightarrow>
                    if VerboseFlag v
                    then Next (Println (DebugLine
                           (nl @ ''Skipping Non User Finding ID: '' @
                            StringValue (Finding_Id finding))) s)
                    else Next s
                | Some details \<Rightarrow>
                    (case newFindingDetail finding details of
                       None \<Rightarrow> Panicking s
                     | Some fd \<Rightarrow> resolveFinding e v fd s))))"

text \<open>Line 419: the loop over the findings of one page.\<close>

fun processFindings ::
  "'w env \<Rightarrow> viper \<Rightarrow> guardduty_Finding option list \<Rightarrow> 'w state \<Rightarrow> 'w flow" where
  "processFindings e v [] s = Next s"
| "processFindings e v (finding # rest) s =
     (case processFinding e v finding s of
        Next s' \<Rightarrow> processFindings e v rest s'
      | Panicking s' \<Rightarrow> Panicking s')"

text \<open>
  Lines 376 to 503: the loop over the pages of one detector, with the continuation token
  as its variable. The loop has no bound, so it is a partial function: \<open>None\<close> means that
  it never ends.
\<close>

partial_function (option) pageLoop ::
  "'w env \<Rightarrow> viper \<Rightarrow> strptr \<Rightarrow> strptr \<Rightarrow> 'w state \<Rightarrow> 'w flow option" where
  "pageLoop e v detectorID listFindingsNextToken s =
     (let archived = (if ArchivedFlag v then ''true'' else ''false'');
          listFindingsInput =
            \<lparr>ListFindingsInput_DetectorId = detectorID,
             ListFindingsInput_FindingCriteria = [(''service.archived'', [archived])],
             ListFindingsInput_NextToken = listFindingsNextToken\<rparr>;
          (findingList, w1) = ListFindings e listFindingsInput (world s);
          s1 = s\<lparr>world := w1, calls := calls s @ [ListFindingsCall listFindingsInput]\<rparr>
      in case findingList of
           Inl err \<Rightarrow>
             pageLoop e v detectorID listFindingsNextToken
               (Println (ErrorLine (Wrapped ''Unable to list Guard Duty findings'' err)) s1)
         | Inr findingList \<Rightarrow>
             (let nextToken = ListFindingsOutput_NextToken findingList in
              if length (ListFindingsOutput_FindingIds findingList) = 0
              then Some (Next s1)
              else
                (let getFindingsInput =
                       \<lparr>GetFindingsInput_DetectorId = detectorID,
                        GetFindingsInput_FindingIds = ListFindingsOutput_FindingIds findingList\<rparr>;
                     ((findings, err), w2) = GetFindings e getFindingsInput (world s1);
                     s2 = s1\<lparr>world := w2, calls := calls s1 @ [GetFindingsCall getFindingsInput]\<rparr>;
                     s3 = (case err of
                             Some err \<Rightarrow>
                               Println (ErrorLine
                                 (Wrapped ''Unable to retrieve Guard Duty findings'' err)) s2
                           | None \<Rightarrow> s2)
                 in case processFindings e v (GetFindingsOutput_Findings findings) s3 of
                      Panicking s4 \<Rightarrow> Some (Panicking s4)
                    | Next s4 \<Rightarrow>
                        if nextToken = None \<or> nextToken = Some []
                        then Some (Next s4)
                        else pageLoop e v detectorID nextToken s4)))"

text \<open>Line 371: the loop over the detectors.\<close>

fun detectorLoop :: "'w env \<Rightarrow> viper \<Rightarrow> strptr list \<Rightarrow> 'w state \<Rightarrow> 'w flow option" where
  "detectorLoop e v [] s = Some (Next s)"
| "detectorLoop e v (detectorID # rest) s =
     (case pageLoop e v detectorID None s of
        None \<Rightarrow> None
      | Some (Panicking s') \<Rightarrow> Some (Panicking s')
      | Some (Next s') \<Rightarrow> detectorLoop e v rest s')"

text \<open>
  How \<open>findGuardDutyUserFunction\<close> ends: it returns (an error or nil), or
  \<^verbatim>\<open>logger.Fatal\<close> has printed an error and left the process with status 1.
\<close>

datatype ending = Return "error option" | Exit int

text \<open>
  \<open>findGuardDutyUserFunction\<close> (lines 293 to 506), started in the world \<open>w\<close>. A panic in
  the loops is caught by the deferred function of lines 294 to 298, which prints it;
  the function then returns nil. \<open>None\<close> means that the function never ends.
\<close>

definition findGuardDutyUserFunction ::
  "'w env \<Rightarrow> viper \<Rightarrow> 'w \<Rightarrow> (ending \<times> 'w state) option" where
  "findGuardDutyUserFunction e v w =
     (let s = \<lparr>world = w, out = [], calls = []\<rparr> in
      case ParseFlags e of
        Some err \<Rightarrow> Some (Return (Some err), s)
      | None \<Rightarrow>
     (case BindPFlags e of
        Some bindErr \<Rightarrow> Some (Return (Some bindErr), s)
      | None \<Rightarrow>
     (case checkConfig e v of
        Some checkConfigErr \<Rightarrow> Some (Return (Some checkConfigErr), s)
      | None \<Rightarrow>
     (case credsGet e of
        Some credsGetErr \<Rightarrow>
          Some (Exit 1, Println (ErrorLine (Wrapped ''error creating aws config'' credsGetErr)) s)
      | None \<Rightarrow>
     (case NewSession e of
        Some errorSession \<Rightarrow>
          Some (Exit 1, Println (ErrorLine (Wrapped ''error creating aws session'' errorSession)) s)
      | None \<Rightarrow>
          (let (detectors, w0) = ListDetectors e (world s);
               s0 = s\<lparr>world := w0, calls := calls s @ [ListDetectorsCall]\<rparr>
           in case detectors of
                Inl err \<Rightarrow>
                  Some (Exit 1,
                    Println (ErrorLine (Wrapped ''Unable to list Guard Duty detectors'' err)) s0)
              | Inr detectorIds \<Rightarrow>
                  (case detectorLoop e v detectorIds s0 of
                     None \<Rightarrow> None
                   | Some (Panicking s') \<Rightarrow> Some (Return None, Println PanicLine s')
                   | Some (Next s') \<Rightarrow> Some (Return None, s'))))))))"


section \<open>Vocabulary of the properties\<close>

text \<open>
  The request that \<open>LookupEvent\<close> builds for a key and a value, and the state after the
  service has answered it.
\<close>

abbreviation lookup :: "string \<Rightarrow> string \<Rightarrow> cloudtrail_LookupEventsInput" where
  "lookup key val \<equiv>
     \<lparr>LookupEventsInput_LookupAttributes = [(key, val)], LookupEventsInput_MaxResults = 1\<rparr>"

abbreviation looked ::
  "'w state \<Rightarrow> string \<Rightarrow> string \<Rightarrow> error + cloudtrail_Event option list \<Rightarrow> 'w \<Rightarrow> 'w state" where
  "looked s key val answer w \<equiv>
     s\<lparr>world := w, calls := calls s @ [LookupEventsCall (lookup key val) answer]\<rparr>"

text \<open>An answer of the audit log that is not exactly one event: an error, none, or several.\<close>

definition failed :: "error + cloudtrail_Event option list \<Rightarrow> bool" where
  "failed answer = (case answer of Inl _ \<Rightarrow> True | Inr events \<Rightarrow> length events \<noteq> 1)"

text \<open>An output entry that shows a resolved identity: a JSON line or a text block.\<close>

fun identityLine :: "printed \<Rightarrow> bool" where
  "identityLine (JSONLine _) = True"
| "identityLine (TextBlock _) = True"
| "identityLine _ = False"

text \<open>What was printed, and which calls were made, between a state and a later one.\<close>

definition printedSince :: "'w state \<Rightarrow> 'w state \<Rightarrow> printed list" where
  "printedSince s s' = drop (length (out s)) (out s')"

definition callsSince :: "'w state \<Rightarrow> 'w state \<Rightarrow> call list" where
  "callsSince s s' = drop (length (calls s)) (calls s')"

text \<open>
  The key and value of the first lookup for a finding detail, by the guards of lines 452
  and 460; \<open>None\<close> when neither the access key nor the principal id can be used.
\<close>

definition credential :: "FindingDetail \<Rightarrow> (string \<times> string) option" where
  "credential fd =
     (case usable (AccessKeyID fd) ''GeneratedFindingAccessKeyId'' of
        Some accessKey \<Rightarrow> Some (''AccessKeyId'', accessKey)
      | None \<Rightarrow>
          (case usable (PrincipalID fd) ''GeneratedFindingPrincipalId'' of
             Some principalId \<Rightarrow> Some (''ResourceName'', principalId)
           | None \<Rightarrow> None))"

text \<open>
  The output entry of a finding detail in the format that the output flag selects, and
  the detail with which a finding of a page reaches the resolver (\<open>None\<close> for a nil
  finding, a finding without access key details and a finding that makes the loop panic).
\<close>

definition printedIdentity :: "viper \<Rightarrow> FindingDetail \<Rightarrow> printed" where
  "printedIdentity v fd =
     (if OutputFlag v = ''json'' then JSONLine (Marshal fd) else TextBlock (Sprintf fd))"

definition detailOf :: "guardduty_Finding option \<Rightarrow> FindingDetail option" where
  "detailOf finding0 =
     (case finding0 of
        None \<Rightarrow> None
      | Some finding \<Rightarrow>
          (case Finding_Resource finding of
             None \<Rightarrow> None
           | Some resource \<Rightarrow>
               (case Resource_AccessKeyDetails resource of
                  None \<Rightarrow> None
                | Some details \<Rightarrow> newFindingDetail finding details)))"

text \<open>
  The two requests that the loop over the pages builds for a detector and a continuation
  token, and the state after the service has answered them.
\<close>

abbreviation listing :: "viper \<Rightarrow> strptr \<Rightarrow> strptr \<Rightarrow> guardduty_ListFindingsInput" where
  "listing v detectorID token \<equiv>
     \<lparr>ListFindingsInput_DetectorId = detectorID,
      ListFindingsInput_FindingCriteria =
        [(''service.archived'', [if ArchivedFlag v then ''true'' else ''false''])],
      ListFindingsInput_NextToken = token\<rparr>"

abbreviation fetching :: "strptr \<Rightarrow> guardduty_ListFindingsOutput \<Rightarrow> guardduty_GetFindingsInput" where
  "fetching detectorID page \<equiv>
     \<lparr>GetFindingsInput_DetectorId = detectorID,
      GetFindingsInput_FindingIds = ListFindingsOutput_FindingIds page\<rparr>"

abbreviation listed :: "'w state \<Rightarrow> guardduty_ListFindingsInput \<Rightarrow> 'w \<Rightarrow> 'w state" where
  "listed s input w \<equiv> s\<lparr>world := w, calls := calls s @ [ListFindingsCall input]\<rparr>"

abbreviation fetched :: "'w state \<Rightarrow> guardduty_GetFindingsInput \<Rightarrow> 'w \<Rightarrow> 'w state" where
  "fetched s input w \<equiv> s\<lparr>world := w, calls := calls s @ [GetFindingsCall input]\<rparr>"

section \<open>Sample inputs\<close>

text \<open>
  An environment whose audit log answers each key and value pair as the given function
  says. Its world has a single state, it has no detector, listing findings is denied,
  and no payload can be decoded.
\<close>

definition auditEnv ::
  "(string \<times> string \<Rightarrow> error + cloudtrail_Event option list) \<Rightarrow> unit env" where
  "auditEnv audit =
     \<lparr>ParseFlags = None, BindPFlags = None,
      RegionsForService = (\<lambda>p. if p = ''aws'' then Some [''us-east-1'', ''us-west-2''] else None),
      credsGet = None, NewSession = None,
      ListDetectors = (\<lambda>w. (Inr [], w)),
      ListFindings = (\<lambda>i w. (Inl (External ''AccessDeniedException''), w)),
      GetFindings = (\<lambda>i w. ((\<lparr>GetFindingsOutput_Findings = []\<rparr>, None), w)),
      LookupEvents = (\<lambda>i w.
        (case LookupEventsInput_LookupAttributes i of
           [attribute] \<Rightarrow> audit attribute
         | _ \<Rightarrow> Inr [], w)),
      jsonUnmarshal = (\<lambda>x. Inl (External ''unexpected end of JSON input''))\<rparr>"

definition start :: "unit state" where
  "start = \<lparr>world = (), out = [], calls = []\<rparr>"

definition sampleViper :: viper where
  "sampleViper =
     \<lparr>AWSGuardDutyPartitionFlag = ''aws'', AWSGuardDutyRegionFlag = ''us-west-2'',
      ArchivedFlag = False, OutputFlag = ''json'', VerboseFlag = False\<rparr>"

text \<open>
  A finding with the given access key id and principal id and without service part, and
  the detail that the loop builds for it.
\<close>

definition sampleFinding :: "strptr \<Rightarrow> strptr \<Rightarrow> guardduty_Finding" where
  "sampleFinding accessKeyId principalId =
     \<lparr>Finding_Id = Some ''finding-1'', Finding_CreatedAt = Some ''2020-06-01T12:00:00Z'',
      Finding_Resource = Some \<lparr>Resource_AccessKeyDetails =
        Some \<lparr>AccessKeyDetails_AccessKeyId = accessKeyId,
              AccessKeyDetails_PrincipalId = principalId\<rparr>\<rparr>,
      Finding_Service = None\<rparr>"

definition sampleDetail :: "strptr \<Rightarrow> strptr \<Rightarrow> FindingDetail" where
  "sampleDetail accessKeyId principalId =
     \<lparr>ID = Some ''finding-1'', CreatedAt = Some ''2020-06-01T12:00:00Z'',
      AccessKeyID = accessKeyId, PrincipalID = principalId,
      AssumedRoleARN = None, Username = None, IPAddress = None,
      ServiceName = None, API = None, City = None, Country = None\<rparr>"

text \<open>
  The scenario of the specification: the event found for the access key \<open>AKIA123\<close> (and
  for the principal id \<open>AIDA123\<close>) has a payload whose identity has the ARN of a role and
  no user name; the event found for that ARN has the user name \<open>alice\<close>. There is one
  detector with one page of one finding.
\<close>

definition roleEvent :: cloudtrail_Event where
  "roleEvent = \<lparr>Event_CloudTrailEvent = Some ''payload-1'', Event_Username = None\<rparr>"

definition userEvent :: cloudtrail_Event where
  "userEvent = \<lparr>Event_CloudTrailEvent = None, Event_Username = Some ''alice''\<rparr>"

definition scenarioAudit :: "string \<times> string \<Rightarrow> error + cloudtrail_Event option list" where
  "scenarioAudit attribute =
     (if attribute = (''AccessKeyId'', ''AKIA123'') then Inr [Some roleEvent]
      else if attribute = (''ResourceName'', ''AIDA123'') then Inr [Some roleEvent]
      else if attribute = (''ResourceName'', ''arn:aws:iam::111:role/X'') then Inr [Some userEvent]
      else Inr [])"

definition scenarioEnv :: "unit env" where
  "scenarioEnv =
     (auditEnv scenarioAudit)
       \<lparr>ListDetectors := (\<lambda>w. (Inr [Some ''detector-1''], w)),
        ListFindings := (\<lambda>i w.
          (Inr \<lparr>ListFindingsOutput_FindingIds = [Some ''finding-1''],
                ListFindingsOutput_NextToken = None\<rparr>, w)),
        GetFindings := (\<lambda>i w.
          ((\<lparr>GetFindingsOutput_Findings = [Some (sampleFinding (Some ''AKIA123'') None)]\<rparr>,
            None), w)),
        jsonUnmarshal := (\<lambda>x.
          if x = ''payload-1''
          then Inr [(''userIdentity'', JObject [(''arn'', JString ''arn:aws:iam::111:role/X'')])]
          else Inl (External ''unexpected end of JSON input''))\<rparr>"

text \<open>An account with one detector in which listing findings is always denied.\<close>

definition deniedEnv :: "unit env" where
  "deniedEnv = (auditEnv (\<lambda>attribute. Inr []))\<lparr>ListDetectors := (\<lambda>w. (Inr [Some ''detector-1''], w))\<rparr>"



section \<open>The steps of the resolver, case by case\<close>

lemma failed_simps [simp]:
  "failed (Inl err)" "failed (Inr events) \<longleftrightarrow> length events \<noteq> 1"
  by (simp_all add: failed_def)

lemma length_one: "length xs = Suc 0 \<longleftrightarrow> (\<exists>x. xs = [x])"
  by (cases xs) auto

lemma LookupEvent_cases:
  assumes "LookupEvent e key val s = (r, s')"
  obtains (fail) answer w err where
      "LookupEvents e (lookup key val) (world s) = (answer, w)" "failed answer"
      "r = Inl err" "s' = looked s key val answer w"
  | (one) event w where
      "LookupEvents e (lookup key val) (world s) = (Inr [event], w)"
      "r = Inr event" "s' = looked s key val (Inr [event]) w"
proof (cases "LookupEvents e (lookup key val) (world s)")
  case (Pair answer w)
  with assms have s': "s' = looked s key val answer w"
    by (auto simp: LookupEvent_def Let_def split: sum.splits if_splits)
  show thesis
  proof (cases "failed answer")
    case True
    with Pair assms obtain err where r: "r = Inl err"
      by (auto simp: LookupEvent_def Let_def split: sum.splits if_splits)
    show thesis by (rule fail [OF Pair True r s'])
  next
    case False
    then obtain event where answer: "answer = Inr [event]"
      by (cases answer) (auto simp: length_one)
    with Pair assms have r: "r = Inr event"
      by (auto simp: LookupEvent_def Let_def)
    show thesis by (rule one [OF Pair [unfolded answer] r s' [unfolded answer]])
  qed
qed

lemma GetRoleAndUser_cases:
  assumes "GetRoleAndUser e key val s = (r, s')"
  obtains (fail) answer w err where
      "LookupEvents e (lookup key val) (world s) = (answer, w)" "failed answer"
      "r = Ret (None, None, Some err)" "s' = looked s key val answer w"
  | (panic) w where
      "LookupEvents e (lookup key val) (world s) = (Inr [None], w)"
      "r = Panic" "s' = looked s key val (Inr [None]) w"
  | (undecodable) event w err where
      "LookupEvents e (lookup key val) (world s) = (Inr [Some event], w)"
      "r = Ret (None, None, Some err)" "s' = looked s key val (Inr [Some event]) w"
  | (identity) event w roleArn username where
      "LookupEvents e (lookup key val) (world s) = (Inr [Some event], w)"
      "r = Ret (Some roleArn, Some username, None)" "s' = looked s key val (Inr [Some event]) w"
proof (cases "LookupEvent e key val s")
  case (Pair r0 s0)
  from Pair show thesis
  proof (cases rule: LookupEvent_cases)
    case (fail answer w err)
    with Pair assms have "r = Ret (None, None, Some (Wrapped
        (''Unable to find CloudTrail event for '' @ key @ '' '' @ val) err))" "s' = s0"
      by (auto simp: GetRoleAndUser_def)
    with fail show thesis by (intro that(1) [of answer w]) simp_all
  next
    case (one event w)
    show thesis
    proof (cases event)
      case None
      with one Pair assms have "r = Panic" "s' = s0"
        by (auto simp: GetRoleAndUser_def)
      with one None show thesis by (intro panic [of w]) simp_all
    next
      case (Some ev)
      have s': "s' = s0"
        using assms Pair one Some
        by (auto simp: GetRoleAndUser_def Let_def split: sum.splits option.splits jvalue.splits)
      have "(\<exists>err. r = Ret (None, None, Some err)) \<or>
          (\<exists>roleArn username. r = Ret (Some roleArn, Some username, None))"
        using assms Pair one Some
        by (auto simp: GetRoleAndUser_def Let_def split: sum.splits option.splits jvalue.splits)
      then show thesis
      proof (elim disjE exE)
        fix err assume "r = Ret (None, None, Some err)"
        with one Some s' show thesis by (intro undecodable [of ev w]) simp_all
      next
        fix roleArn username assume "r = Ret (Some roleArn, Some username, None)"
        with one Some s' show thesis by (intro identity [of ev w]) simp_all
      qed
    qed
  qed
qed

lemma GetUser_cases:
  assumes "GetUser e roleArn s = (r, s')"
  obtains (fail) answer w err where
      "LookupEvents e (lookup ''ResourceName'' roleArn) (world s) = (answer, w)" "failed answer"
      "r = Ret (None, Some err)" "s' = looked s ''ResourceName'' roleArn answer w"
  | (panic) w where
      "LookupEvents e (lookup ''ResourceName'' roleArn) (world s) = (Inr [None], w)"
      "r = Panic" "s' = looked s ''ResourceName'' roleArn (Inr [None]) w"
  | (user) event w where
      "LookupEvents e (lookup ''ResourceName'' roleArn) (world s) = (Inr [Some event], w)"
      "r = Ret (Some (StringValue (Event_Username event)), None)"
      "s' = looked s ''ResourceName'' roleArn (Inr [Some event]) w"
proof (cases "LookupEvent e ''ResourceName'' roleArn s")
  case (Pair r0 s0)
  from Pair show thesis
  proof (cases rule: LookupEvent_cases)
    case (fail answer w err)
    with Pair assms have "r = Ret (None, Some (Wrapped
        (''Unable to find CloudTrail event for role arn '' @ roleArn) err))" "s' = s0"
      by (auto simp: GetUser_def)
    with fail show thesis by (intro that(1) [of answer w]) simp_all
  next
    case (one event w)
    show thesis
    proof (cases event)
      case None
      with one Pair assms have "r = Panic" "s' = s0"
        by (auto simp: GetUser_def)
      with one None show thesis by (intro panic [of w]) simp_all
    next
      case (Some ev)
      with one Pair assms have "r = Ret (Some (StringValue (Event_Username ev)), None)" "s' = s0"
        by (auto simp: GetUser_def)
      with one Some show thesis by (intro user [of ev w]) simp_all
    qed
  qed
qed

lemma finishFinding_cases:
  assumes "finishFinding e v fd roleArn username s = r"
  obtains (skip) "roleArn = None \<or> roleArn = Some []" "r = Next s"
  | (direct) arn u where
      "roleArn = Some arn" "arn \<noteq> []" "username = Some u" "u \<noteq> []"
      "r = Next (printOutput v (fd\<lparr>AssumedRoleARN := Some arn, Username := Some u\<rparr>) s)"
  | (fail) arn answer w err where
      "roleArn = Some arn" "arn \<noteq> []" "username = None \<or> username = Some []"
      "LookupEvents e (lookup ''ResourceName'' arn) (world s) = (answer, w)" "failed answer"
      "r = Next (Println (ErrorLine err) (looked s ''ResourceName'' arn answer w))"
  | (panic) arn w where
      "roleArn = Some arn" "arn \<noteq> []" "username = None \<or> username = Some []"
      "LookupEvents e (lookup ''ResourceName'' arn) (world s) = (Inr [None], w)"
      "r = Panicking (looked s ''ResourceName'' arn (Inr [None]) w)"
  | (second) arn event w where
      "roleArn = Some arn" "arn \<noteq> []" "username = None \<or> username = Some []"
      "LookupEvents e (lookup ''ResourceName'' arn) (world s) = (Inr [Some event], w)"
      "r = Next (printOutput v
             (fd\<lparr>AssumedRoleARN := Some arn,
                 Username := Some (StringValue (Event_Username event))\<rparr>)
             (looked s ''ResourceName'' arn (Inr [Some event]) w))"
proof (cases roleArn)
  case None
  with assms show thesis by (intro skip) (simp_all add: finishFinding_def)
next
  case (Some arn)
  show thesis
  proof (cases "arn = []")
    case True
    with Some assms show thesis by (intro skip) (simp_all add: finishFinding_def)
  next
    case arn: False
    show thesis
    proof (cases "username = None \<or> username = Some []")
      case False
      then obtain u where u: "username = Some u" "u \<noteq> []" by (cases username) auto
      with Some arn assms
      have "r = Next (printOutput v (fd\<lparr>AssumedRoleARN := Some arn, Username := Some u\<rparr>) s)"
        by (simp add: finishFinding_def)
      with Some arn u show thesis by (intro direct [of arn u]) simp_all
    next
      case True
      obtain g s' where g: "GetUser e arn s = (g, s')" by (cases "GetUser e arn s")
      from Some arn True g assms
      have r: "r = (case g of Panic \<Rightarrow> Panicking s'
          | Ret (username2, Some err) \<Rightarrow>
              Next (Println (ErrorLine
                (Wrapped ''Unable to find role username from role arn'' err)) s')
          | Ret (username2, None) \<Rightarrow>
              Next (printOutput v (fd\<lparr>AssumedRoleARN := Some arn, Username := username2\<rparr>) s'))"
        by (auto simp: finishFinding_def Let_def split: result.splits option.splits)
      from g show thesis
      proof (cases rule: GetUser_cases)
        case (fail answer w err)
        with r have "r = Next (Println (ErrorLine
            (Wrapped ''Unable to find role username from role arn'' err))
            (looked s ''ResourceName'' arn answer w))" by simp
        with Some arn True fail show thesis by (intro that(3) [of arn answer w]) simp_all
      next
        case (panic w)
        with r have "r = Panicking (looked s ''ResourceName'' arn (Inr [None]) w)" by simp
        with Some arn True panic show thesis by (intro that(4) [of arn w]) simp_all
      next
        case (user event w)
        with r have "r = Next (printOutput v
             (fd\<lparr>AssumedRoleARN := Some arn,
                 Username := Some (StringValue (Event_Username event))\<rparr>)
             (looked s ''ResourceName'' arn (Inr [Some event]) w))" by simp
        with Some arn True user show thesis by (intro second [of arn event w]) simp_all
      qed
    qed
  qed
qed

lemma credential_cases:
  obtains (accessKey) val where
      "usable (AccessKeyID fd) ''GeneratedFindingAccessKeyId'' = Some val"
      "credential fd = Some (''AccessKeyId'', val)"
  | (principalId) val where
      "usable (AccessKeyID fd) ''GeneratedFindingAccessKeyId'' = None"
      "usable (PrincipalID fd) ''GeneratedFindingPrincipalId'' = Some val"
      "credential fd = Some (''ResourceName'', val)"
  | (neither)
      "usable (AccessKeyID fd) ''GeneratedFindingAccessKeyId'' = None"
      "usable (PrincipalID fd) ''GeneratedFindingPrincipalId'' = None"
      "credential fd = None"
  by (cases "usable (AccessKeyID fd) ''GeneratedFindingAccessKeyId''";
      cases "usable (PrincipalID fd) ''GeneratedFindingPrincipalId''")
     (simp_all add: credential_def)

lemma resolveFinding_credential:
  "resolveFinding e v fd s =
     (case credential fd of
        None \<Rightarrow> Next s
      | Some (key, val) \<Rightarrow>
          (case GetRoleAndUser e key val s of
             (Panic, s') \<Rightarrow> Panicking s'
           | (Ret (_, _, Some err), s') \<Rightarrow>
               Next (Println (ErrorLine (Wrapped
                 (if key = ''AccessKeyId''
                  then ''Unable to find role arn and username from access key in finding''
                  else ''Unable to find role arn and username from principal ID in finding'')
                 err)) s')
           | (Ret (roleArn, username, None), s') \<Rightarrow>
               finishFinding e v fd roleArn username s'))"
  by (cases fd rule: credential_cases) (simp_all add: resolveFinding_def)

lemma resolveFinding_cases:
  assumes "resolveFinding e v fd s = r"
  obtains (skip) "credential fd = None" "r = Next s"
  | (fail) key val answer w err where
      "credential fd = Some (key, val)"
      "LookupEvents e (lookup key val) (world s) = (answer, w)" "failed answer"
      "r = Next (Println (ErrorLine err) (looked s key val answer w))"
  | (panic) key val w where
      "credential fd = Some (key, val)"
      "LookupEvents e (lookup key val) (world s) = (Inr [None], w)"
      "r = Panicking (looked s key val (Inr [None]) w)"
  | (undecodable) key val event w err where
      "credential fd = Some (key, val)"
      "LookupEvents e (lookup key val) (world s) = (Inr [Some event], w)"
      "r = Next (Println (ErrorLine err) (looked s key val (Inr [Some event]) w))"
  | (identity) key val event w roleArn username where
      "credential fd = Some (key, val)"
      "LookupEvents e (lookup key val) (world s) = (Inr [Some event], w)"
      "GetRoleAndUser e key val s =
         (Ret (Some roleArn, Some username, None), looked s key val (Inr [Some event]) w)"
      "r = finishFinding e v fd (Some roleArn) (Some username)
             (looked s key val (Inr [Some event]) w)"
proof (cases "credential fd")
  case None
  with assms show thesis by (intro skip) (simp_all add: resolveFinding_credential)
next
  case (Some kv)
  obtain key val where kv: "kv = (key, val)" by (cases kv)
  obtain g s' where g: "GetRoleAndUser e key val s = (g, s')"
    by (cases "GetRoleAndUser e key val s")
  note c = Some [unfolded kv]
  from g show thesis
  proof (cases rule: GetRoleAndUser_cases)
    case (fail answer w err)
    with assms c g have "\<exists>err'. r = Next (Println (ErrorLine err') (looked s key val answer w))"
      by (auto simp: resolveFinding_credential)
    then obtain err' where "r = Next (Println (ErrorLine err') (looked s key val answer w))" ..
    with c fail show thesis by (intro that(2) [of key val answer w err']) simp_all
  next
    case (panic w)
    with assms c g have "r = Panicking (looked s key val (Inr [None]) w)"
      by (auto simp: resolveFinding_credential)
    with c panic show thesis by (intro that(3) [of key val w]) simp_all
  next
    case (undecodable event w err)
    with assms c g
    have "\<exists>err'. r = Next (Println (ErrorLine err') (looked s key val (Inr [Some event]) w))"
      by (auto simp: resolveFinding_credential)
    then obtain err' where
      "r = Next (Println (ErrorLine err') (looked s key val (Inr [Some event]) w))" ..
    with c undecodable show thesis by (intro that(4) [of key val event w err']) simp_all
  next
    case (identity event w roleArn username)
    with assms c g
    have "r = finishFinding e v fd (Some roleArn) (Some username)
             (looked s key val (Inr [Some event]) w)"
      by (auto simp: resolveFinding_credential)
    with c identity g show thesis
      by (intro that(5) [of key val event w roleArn username]) simp_all
  qed
qed

lemma Println_simps [simp]:
  "out (Println x s) = out s @ [x]" "calls (Println x s) = calls s" "world (Println x s) = world s"
  by (simp_all add: Println_def)

lemma printOutput_Println: "printOutput v fd s = Println (printedIdentity v fd) s"
  by (simp add: printOutput_def printedIdentity_def PrintJSON_def Print_def)

lemma callsSince_simps [simp]:
  "callsSince s s = []"
  "callsSince s (Println x t) = callsSince s t"
  "callsSince s (looked s key val answer w) = [LookupEventsCall (lookup key val) answer]"
  "callsSince s (looked (looked s key val answer w) key' val' answer' w') =
     [LookupEventsCall (lookup key val) answer, LookupEventsCall (lookup key' val') answer']"
  by (simp_all add: callsSince_def)

lemma printedSince_simps [simp]:
  "printedSince s s = []"
  "printedSince s (Println x s) = [x]"
  "printedSince s (Println x (looked s key val answer w)) = [x]"
  "printedSince s (Println x (looked (looked s key val answer w) key' val' answer' w')) = [x]"
  "printedSince s (looked s key val answer w) = []"
  "printedSince s (looked (looked s key val answer w) key' val' answer' w') = []"
  by (simp_all add: printedSince_def)

lemma resolveFinding_outcome:
  assumes "resolveFinding e v fd s = r"
  obtains (no_credential) "credential fd = None" "r = Next s"
  | (first_failed) key val answer w err where
      "credential fd = Some (key, val)"
      "LookupEvents e (lookup key val) (world s) = (answer, w)" "failed answer"
      "r = Next (Println (ErrorLine err) (looked s key val answer w))"
  | (first_panic) key val w where
      "credential fd = Some (key, val)"
      "LookupEvents e (lookup key val) (world s) = (Inr [None], w)"
      "r = Panicking (looked s key val (Inr [None]) w)"
  | (undecodable) key val event w err where
      "credential fd = Some (key, val)"
      "LookupEvents e (lookup key val) (world s) = (Inr [Some event], w)"
      "r = Next (Println (ErrorLine err) (looked s key val (Inr [Some event]) w))"
  | (empty_arn) key val event w username where
      "credential fd = Some (key, val)"
      "LookupEvents e (lookup key val) (world s) = (Inr [Some event], w)"
      "GetRoleAndUser e key val s =
         (Ret (Some [], Some username, None), looked s key val (Inr [Some event]) w)"
      "r = Next (looked s key val (Inr [Some event]) w)"
  | (direct) key val event w arn username where
      "credential fd = Some (key, val)"
      "LookupEvents e (lookup key val) (world s) = (Inr [Some event], w)"
      "GetRoleAndUser e key val s =
         (Ret (Some arn, Some username, None), looked s key val (Inr [Some event]) w)"
      "arn \<noteq> []" "username \<noteq> []"
      "r = Next (Println
             (printedIdentity v (fd\<lparr>AssumedRoleARN := Some arn, Username := Some username\<rparr>))
             (looked s key val (Inr [Some event]) w))"
  | (second_failed) key val event w arn answer2 w2 err where
      "credential fd = Some (key, val)"
      "LookupEvents e (lookup key val) (world s) = (Inr [Some event], w)"
      "GetRoleAndUser e key val s =
         (Ret (Some arn, Some [], None), looked s key val (Inr [Some event]) w)"
      "arn \<noteq> []"
      "LookupEvents e (lookup ''ResourceName'' arn) w = (answer2, w2)" "failed answer2"
      "r = Next (Println (ErrorLine err)
             (looked (looked s key val (Inr [Some event]) w) ''ResourceName'' arn answer2 w2))"
  | (second_panic) key val event w arn w2 where
      "credential fd = Some (key, val)"
      "LookupEvents e (lookup key val) (world s) = (Inr [Some event], w)"
      "GetRoleAndUser e key val s =
         (Ret (Some arn, Some [], None), looked s key val (Inr [Some event]) w)"
      "arn \<noteq> []"
      "LookupEvents e (lookup ''ResourceName'' arn) w = (Inr [None], w2)"
      "r = Panicking
             (looked (looked s key val (Inr [Some event]) w) ''ResourceName'' arn (Inr [None]) w2)"
  | (second) key val event w arn event2 w2 where
      "credential fd = Some (key, val)"
      "LookupEvents e (lookup key val) (world s) = (Inr [Some event], w)"
      "GetRoleAndUser e key val s =
         (Ret (Some arn, Some [], None), looked s key val (Inr [Some event]) w)"
      "arn \<noteq> []"
      "LookupEvents e (lookup ''ResourceName'' arn) w = (Inr [Some event2], w2)"
      "r = Next (Println
             (printedIdentity v
                (fd\<lparr>AssumedRoleARN := Some arn,
                    Username := Some (StringValue (Event_Username event2))\<rparr>))
             (looked (looked s key val (Inr [Some event]) w) ''ResourceName'' arn
                (Inr [Some event2]) w2))"
  using assms
proof (cases rule: resolveFinding_cases)
  case skip
  then show thesis by (rule no_credential)
next
  case (fail key val answer w err)
  then show thesis by (rule first_failed)
next
  case (panic key val w)
  then show thesis by (rule first_panic)
next
  case (undecodable key val event w err)
  then show thesis by (rule that(4))
next
  case first: (identity key val event w roleArn username)
  let ?s1 = "looked s key val (Inr [Some event]) w"
  from first(4) [symmetric] show thesis
  proof (cases rule: finishFinding_cases)
    case skip
    with first show thesis by (intro empty_arn [of key val event w username]) simp_all
  next
    case (direct arn u)
    with first show thesis
      by (intro that(6) [of key val event w arn u]) (simp_all add: printOutput_Println)
  next
    case (fail arn answer2 w2 err)
    with first show thesis
      by (intro second_failed [of key val event w arn answer2 w2 err]) simp_all
  next
    case (panic arn w2)
    with first show thesis
      by (intro second_panic [of key val event w arn w2]) simp_all
  next
    case (second arn event2 w2)
    with first show thesis
      by (intro that(9) [of key val event w arn event2 w2]) (simp_all add: printOutput_Println)
  qed
qed

lemma processFinding_detail:
  "detailOf finding = Some fd \<Longrightarrow> processFinding e v finding s = resolveFinding e v fd s"
  by (auto simp: detailOf_def processFinding_def split: option.splits)

lemma processFinding_no_detail:
  assumes "detailOf finding = None"
  shows "processFinding e v finding s = Next s \<or> processFinding e v finding s = Panicking s \<or>
    (\<exists>x. processFinding e v finding s = Next (Println (DebugLine x) s))"
  using assms by (auto simp: detailOf_def processFinding_def split: option.splits)

lemma usable_Some: "usable p placeholder = Some x \<longleftrightarrow> p = Some x \<and> x \<noteq> [] \<and> x \<noteq> placeholder"
  by (auto simp: usable_def split: option.splits)

lemma usable_None:
  "usable p placeholder = None \<longleftrightarrow> \<not> (\<exists>x. p = Some x \<and> x \<noteq> [] \<and> x \<noteq> placeholder)"
  by (auto simp: usable_def split: option.splits)

lemma credential_Some:
  "credential fd = Some (key, val) \<longleftrightarrow>
     key = ''AccessKeyId'' \<and> usable (AccessKeyID fd) ''GeneratedFindingAccessKeyId'' = Some val \<or>
     key = ''ResourceName'' \<and> usable (AccessKeyID fd) ''GeneratedFindingAccessKeyId'' = None \<and>
       usable (PrincipalID fd) ''GeneratedFindingPrincipalId'' = Some val"
  by (cases fd rule: credential_cases) auto

lemma credential_None:
  "credential fd = None \<longleftrightarrow>
     usable (AccessKeyID fd) ''GeneratedFindingAccessKeyId'' = None \<and>
     usable (PrincipalID fd) ''GeneratedFindingPrincipalId'' = None"
  by (cases fd rule: credential_cases) auto

text \<open>The first call of the resolver is the lookup for the credential.\<close>

lemma resolveFinding_first_call:
  assumes "credential fd = Some (key, val)"
  shows "\<exists>answer rest. calls (flowState (resolveFinding e v fd s)) =
           calls s @ LookupEventsCall (lookup key val) answer # rest"
proof -
  define r where "r = resolveFinding e v fd s"
  then have "resolveFinding e v fd s = r" by simp
  then have "\<exists>answer rest. calls (flowState r) =
      calls s @ LookupEventsCall (lookup key val) answer # rest"
    using assms by (cases rule: resolveFinding_outcome) auto
  then show ?thesis by (simp add: r_def)
qed

lemma GetRoleAndUser_identity:
  assumes "LookupEvents e (lookup key val) (world s) = (Inr [Some event], w)"
    and "jsonUnmarshal e (StringValue (Event_CloudTrailEvent event)) = Inr data"
    and "map_of data ''userIdentity'' = Some (JObject userIdentity)"
    and "map_of userIdentity ''arn'' = Some (JString arn)"
  shows "GetRoleAndUser e key val s =
    (Ret (Some arn,
          Some (case map_of userIdentity ''userName'' of Some (JString u) \<Rightarrow> u | _ \<Rightarrow> []),
          None),
     looked s key val (Inr [Some event]) w)"
  using assms by (simp add: GetRoleAndUser_def LookupEvent_def)

lemma no_userName:
  assumes "\<forall>u. map_of userIdentity ''userName'' = Some (JString u) \<longrightarrow> u = []"
  shows "(case map_of userIdentity ''userName'' of Some (JString u) \<Rightarrow> u | _ \<Rightarrow> []) = []"
  using assms by (auto split: option.splits jvalue.splits)

text \<open>
  The second lookup, for either path: when the first event gives an ARN and no user
  name, the audit log is asked for the ARN, and the user name printed is the one of the
  event it returns.
\<close>

lemma second_lookup:
  assumes c: "credential fd = Some (key, val)"
    and l: "LookupEvents e (lookup key val) (world s) = (Inr [Some event], w)"
    and j: "jsonUnmarshal e (StringValue (Event_CloudTrailEvent event)) = Inr data"
      "map_of data ''userIdentity'' = Some (JObject userIdentity)"
      "map_of userIdentity ''arn'' = Some (JString arn)"
    and arn: "arn \<noteq> []"
    and u: "\<forall>u. map_of userIdentity ''userName'' = Some (JString u) \<longrightarrow> u = []"
    and l2: "LookupEvents e (lookup ''ResourceName'' arn) w = (answer2, w2)"
  shows "calls (flowState (resolveFinding e v fd s)) =
           calls s @ [LookupEventsCall (lookup key val) (Inr [Some event]),
                      LookupEventsCall (lookup ''ResourceName'' arn) answer2] \<and>
         (\<forall>event2. answer2 = Inr [Some event2] \<longrightarrow>
            (\<exists>s'. resolveFinding e v fd s = Next s' \<and>
               out s' = out s @
                 [printedIdentity v
                    (fd\<lparr>AssumedRoleARN := Some arn,
                        Username := Some (StringValue (Event_Username event2))\<rparr>)]))"
proof -
  let ?s1 = "looked s key val (Inr [Some event]) w"
  have g: "GetRoleAndUser e key val s = (Ret (Some arn, Some [], None), ?s1)"
    using GetRoleAndUser_identity [OF l j] no_userName [OF u] by simp
  define r where "r = finishFinding e v fd (Some arn) (Some []) ?s1"
  have rf: "resolveFinding e v fd s = r"
    using c g by (simp add: resolveFinding_credential r_def)
  have "finishFinding e v fd (Some arn) (Some []) ?s1 = r" by (simp add: r_def)
  then have "calls (flowState r) =
           calls s @ [LookupEventsCall (lookup key val) (Inr [Some event]),
                      LookupEventsCall (lookup ''ResourceName'' arn) answer2] \<and>
         (\<forall>event2. answer2 = Inr [Some event2] \<longrightarrow>
            (\<exists>s'. r = Next s' \<and>
               out s' = out s @
                 [printedIdentity v
                    (fd\<lparr>AssumedRoleARN := Some arn,
                        Username := Some (StringValue (Event_Username event2))\<rparr>)]))"
    using arn l2 by (cases rule: finishFinding_cases) (auto simp: printOutput_Println)
  with rf show ?thesis by simp
qed

section \<open>The sample inputs, evaluated\<close>

lemma detailOf_sample: "detailOf (Some (sampleFinding a p)) = Some (sampleDetail a p)"
  by (simp add: detailOf_def sampleFinding_def sampleDetail_def newFindingDetail_def)

lemma sampleDetail_simps [simp]:
  "AccessKeyID (sampleDetail a p) = a" "PrincipalID (sampleDetail a p) = p"
  by (simp_all add: sampleDetail_def)

lemma auditEnv_LookupEvents [simp]:
  "LookupEvents (auditEnv audit) (lookup key val) w = (audit (key, val), w)"
  by (simp add: auditEnv_def)

lemma scenarioEnv_simps [simp]:
  "LookupEvents scenarioEnv (lookup key val) w = (scenarioAudit (key, val), w)"
  "jsonUnmarshal scenarioEnv ''payload-1'' =
     Inr [(''userIdentity'', JObject [(''arn'', JString ''arn:aws:iam::111:role/X'')])]"
  by (simp_all add: scenarioEnv_def auditEnv_def)

lemma scenarioAudit_simps [simp]:
  "scenarioAudit (''AccessKeyId'', ''AKIA123'') = Inr [Some roleEvent]"
  "scenarioAudit (''ResourceName'', ''AIDA123'') = Inr [Some roleEvent]"
  "scenarioAudit (''ResourceName'', ''arn:aws:iam::111:role/X'') = Inr [Some userEvent]"
  by (simp_all add: scenarioAudit_def)

lemma sample_events [simp]:
  "StringValue (Event_CloudTrailEvent roleEvent) = ''payload-1''"
  "StringValue (Event_Username userEvent) = ''alice''"
  by (simp_all add: roleEvent_def userEvent_def StringValue_def)

lemma world_start [simp]: "world start = ()" "out start = []" "calls start = []"
  by (simp_all add: start_def)

section \<open>The fields of the JSON line\<close>

lemma map_of_always:
  "map_of (always name p @ rest) k =
     (if k = name then Some (case p of None \<Rightarrow> JNull | Some x \<Rightarrow> JString x) else map_of rest k)"
  by (simp add: always_def)

lemma map_of_omitempty:
  "map_of (omitempty name p @ rest) k =
     (if k = name \<and> p \<noteq> None then map_option JString p else map_of rest k)"
  by (cases p) (simp_all add: omitempty_def)

lemma map_of_omitempty_last:
  "map_of (omitempty name p) k = (if k = name then map_option JString p else None)"
  by (cases p) (simp_all add: omitempty_def)

lemma names_always: "map fst (always name p) = [name]"
  by (simp add: always_def)

lemma names_omitempty: "map fst (omitempty name p) = (if p = None then [] else [name])"
  by (cases p) (simp_all add: omitempty_def)

lemma Marshal_optional:
  "map_of (Marshal fd) ''accessKeyID'' = map_option JString (AccessKeyID fd)"
  "map_of (Marshal fd) ''principalID'' = map_option JString (PrincipalID fd)"
  "map_of (Marshal fd) ''ipAddress'' = map_option JString (IPAddress fd)"
  "map_of (Marshal fd) ''serviceName'' = map_option JString (ServiceName fd)"
  "map_of (Marshal fd) ''api'' = map_option JString (API fd)"
  "map_of (Marshal fd) ''city'' = map_option JString (City fd)"
  "map_of (Marshal fd) ''country'' = map_option JString (Country fd)"
  by (simp_all add: Marshal_def map_of_always map_of_omitempty map_of_omitempty_last
        del: map_of_append)

lemma Marshal_required:
  "map_of (Marshal fd) ''id'' = Some (case ID fd of None \<Rightarrow> JNull | Some x \<Rightarrow> JString x)"
  "map_of (Marshal fd) ''createdAt'' =
     Some (case CreatedAt fd of None \<Rightarrow> JNull | Some x \<Rightarrow> JString x)"
  "map_of (Marshal fd) ''assumeRoleARN'' =
     Some (case AssumedRoleARN fd of None \<Rightarrow> JNull | Some x \<Rightarrow> JString x)"
  "map_of (Marshal fd) ''username'' =
     Some (case Username fd of None \<Rightarrow> JNull | Some x \<Rightarrow> JString x)"
  by (simp_all add: Marshal_def map_of_always map_of_omitempty map_of_omitempty_last
        del: map_of_append)

lemma Marshal_names:
  "map fst (Marshal fd) =
     [''id'', ''createdAt''] @
     (if AccessKeyID fd = None then [] else [''accessKeyID'']) @
     (if PrincipalID fd = None then [] else [''principalID'']) @
     [''assumeRoleARN'', ''username''] @
     (if IPAddress fd = None then [] else [''ipAddress'']) @
     (if ServiceName fd = None then [] else [''serviceName'']) @
     (if API fd = None then [] else [''api'']) @
     (if City fd = None then [] else [''city'']) @
     (if Country fd = None then [] else [''country''])"
  by (simp add: Marshal_def names_always names_omitempty)

lemma checkOutput_None: "checkOutput v = None \<longleftrightarrow> OutputFlag v = ''text'' \<or> OutputFlag v = ''json''"
  by (simp add: checkOutput_def Let_def split: option.splits)

section \<open>The loop over the pages, step by step\<close>

lemma pageLoop_listing_failed:
  assumes "ListFindings e (listing v detectorID token) (world s) = (Inl err, w1)"
  shows "pageLoop e v detectorID token s =
    pageLoop e v detectorID token
      (Println (ErrorLine (Wrapped ''Unable to list Guard Duty findings'' err))
         (listed s (listing v detectorID token) w1))"
  using assms by (subst pageLoop.simps) (simp add: Let_def)

lemma pageLoop_empty_page:
  assumes "ListFindings e (listing v detectorID token) (world s) = (Inr page, w1)"
    and "ListFindingsOutput_FindingIds page = []"
  shows "pageLoop e v detectorID token s = Some (Next (listed s (listing v detectorID token) w1))"
  using assms by (subst pageLoop.simps) (simp add: Let_def)

lemma pageLoop_page:
  assumes "ListFindings e (listing v detectorID token) (world s) = (Inr page, w1)"
    and "ListFindingsOutput_FindingIds page \<noteq> []"
    and "GetFindings e (fetching detectorID page) w1 = ((findings, err), w2)"
  shows "pageLoop e v detectorID token s =
    (case processFindings e v (GetFindingsOutput_Findings findings)
            (case err of
               None \<Rightarrow> fetched (listed s (listing v detectorID token) w1)
                         (fetching detectorID page) w2
             | Some err \<Rightarrow>
                 Println (ErrorLine (Wrapped ''Unable to retrieve Guard Duty findings'' err))
                   (fetched (listed s (listing v detectorID token) w1)
                      (fetching detectorID page) w2)) of
       Next s4 \<Rightarrow>
         if ListFindingsOutput_NextToken page = None \<or> ListFindingsOutput_NextToken page = Some []
         then Some (Next s4)
         else pageLoop e v detectorID (ListFindingsOutput_NextToken page) s4
     | Panicking s4 \<Rightarrow> Some (Panicking s4))"
  using assms by (subst pageLoop.simps) (simp add: Let_def split: option.splits)

text \<open>
  When listing findings fails every time, the loop over the pages never ends: an end
  would have to come from an answer that is not an error.
\<close>

lemma pageLoop_ends:
  assumes "pageLoop e v detectorID token s = Some r"
  shows "\<exists>input w page w1. ListFindings e input w = (Inr page, w1)"
proof (rule pageLoop.raw_induct [OF _ assms], goal_cases)
  case (1 loop e v detectorID token s r)
  show ?case
  proof (cases "ListFindings e (listing v detectorID token) (world s)")
    case (Pair answer w1)
    show ?thesis
    proof (cases answer)
      case (Inl err)
      with Pair 1(2) have "loop e v detectorID token
          (Println (ErrorLine (Wrapped ''Unable to list Guard Duty findings'' err))
             (listed s (listing v detectorID token) w1)) = Some r"
        by (simp add: Let_def)
      then show ?thesis by (rule 1(1))
    next
      case (Inr page)
      with Pair show ?thesis by blast
    qed
  qed
qed

lemma pageLoop_never_ends:
  assumes "\<And>input w. \<exists>err w1. ListFindings e input w = (Inl err, w1)"
  shows "pageLoop e v detectorID token s = None"
proof (cases "pageLoop e v detectorID token s")
  case None
  then show ?thesis .
next
  case (Some r)
  from pageLoop_ends [OF this] obtain input w page w1
    where "ListFindings e input w = (Inr page, w1)" by blast
  with assms [of input w] show ?thesis by auto
qed

lemma checkConfig_sample [simp]:
  "checkConfig (auditEnv audit) sampleViper = None"
  "checkConfig scenarioEnv sampleViper = None"
  "checkConfig deniedEnv sampleViper = None"
  by (simp_all add: checkConfig_def checkRegion_def checkOutput_def auditEnv_def scenarioEnv_def
        deniedEnv_def sampleViper_def)

section \<open>Errors that end the run and errors that do not\<close>







section \<open>Properties of the specification\<close>

text \<open>
  C1. The scenario of the specification, for any environment that behaves as it says:
  no error in the setup, JSON output, findings that are not archived, one detector, one
  page with one finding whose detail has the access key id \<open>AKIA123\<close>; the lookup of
  \<open>AccessKeyId\<close> and \<open>AKIA123\<close> returns one event whose payload decodes to an identity
  with the ARN \<open>arn:aws:iam::111:role/X\<close> and no user name; the lookup of \<open>ResourceName\<close>
  and that ARN returns one event with the user name \<open>alice\<close>. Then the command returns
  without error and has printed exactly one line, a JSON object whose field
  \<open>assumeRoleARN\<close> is the ARN and whose field \<open>username\<close> is \<open>alice\<close>.
\<close>

theorem C1_end_to_end_scenario:
  assumes startup: "ParseFlags e = None" "BindPFlags e = None" "checkConfig e v = None"
      "credsGet e = None" "NewSession e = None"
    and flags: "OutputFlag v = ''json''" "\<not> ArchivedFlag v"
    and detectors: "ListDetectors e w = (Inr [detectorID], w0)"
    and page: "ListFindings e (listing v detectorID None) w0 = (Inr page, w1)"
      "ListFindingsOutput_FindingIds page = [findingId]"
      "ListFindingsOutput_NextToken page = None \<or> ListFindingsOutput_NextToken page = Some []"
    and findings: "GetFindings e (fetching detectorID page) w1 =
      ((\<lparr>GetFindingsOutput_Findings = [finding]\<rparr>, None), w2)"
    and finding: "detailOf finding = Some fd" "AccessKeyID fd = Some ''AKIA123''"
    and first: "LookupEvents e (lookup ''AccessKeyId'' ''AKIA123'') w2 = (Inr [Some event1], w3)"
      "jsonUnmarshal e (StringValue (Event_CloudTrailEvent event1)) = Inr data"
      "map_of data ''userIdentity'' = Some (JObject userIdentity)"
      "map_of userIdentity ''arn'' = Some (JString ''arn:aws:iam::111:role/X'')"
    and no_user: "map_of userIdentity ''userName'' = None"
    and second: "LookupEvents e (lookup ''ResourceName'' ''arn:aws:iam::111:role/X'') w3 =
      (Inr [Some event2], w4)"
      "Event_Username event2 = Some ''alice''"
  shows "\<exists>s fields.
           findGuardDutyUserFunction e v w = Some (Return None, s) \<and>
           out s = [JSONLine fields] \<and>
           map_of fields ''assumeRoleARN'' = Some (JString ''arn:aws:iam::111:role/X'') \<and>
           map_of fields ''username'' = Some (JString ''alice'')"
proof -
  let ?s0 = "\<lparr>world = w0, out = [], calls = [ListDetectorsCall]\<rparr>"
  let ?s2 = "fetched (listed ?s0 (listing v detectorID None) w1) (fetching detectorID page) w2"
  let ?fd = "fd\<lparr>AssumedRoleARN := Some ''arn:aws:iam::111:role/X'',
                 Username := Some (StringValue (Event_Username event2))\<rparr>"
  have c: "credential fd = Some (''AccessKeyId'', ''AKIA123'')"
    using finding(2) by (simp add: credential_Some usable_Some)
  have u: "\<forall>u. map_of userIdentity ''userName'' = Some (JString u) \<longrightarrow> u = []"
    using no_user by simp
  have l1: "LookupEvents e (lookup ''AccessKeyId'' ''AKIA123'') (world ?s2) = (Inr [Some event1], w3)"
    using first(1) by simp
  have arn: "''arn:aws:iam::111:role/X'' \<noteq> []" by simp
  from second_lookup [OF c l1 first(2-4) arn u second(1), of v]
  obtain s' where s': "resolveFinding e v fd ?s2 = Next s'" "out s' = out ?s2 @ [printedIdentity v ?fd]"
    by blast
  from s'(1) finding(1) have "processFindings e v [finding] ?s2 = Next s'"
    by (simp add: processFinding_detail)
  with page findings have "pageLoop e v detectorID None ?s0 = Some (Next s')"
    by (subst pageLoop_page [where page = page and ?w1.0 = w1 and findings =
          "\<lparr>GetFindingsOutput_Findings = [finding]\<rparr>" and err = None and ?w2.0 = w2])
       auto
  with startup detectors have run: "findGuardDutyUserFunction e v w = Some (Return None, s')"
    by (simp add: findGuardDutyUserFunction_def)
  have "out s' = [JSONLine (Marshal ?fd)]"
    using s'(2) flags(1) by (simp add: printedIdentity_def)
  moreover have "map_of (Marshal ?fd) ''assumeRoleARN'' = Some (JString ''arn:aws:iam::111:role/X'')"
    "map_of (Marshal ?fd) ''username'' = Some (JString ''alice'')"
    using second(2) by (simp_all add: Marshal_required StringValue_def)
  ultimately show ?thesis using run by blast
qed

theorem C1_end_to_end_scenario_witness:
  "\<exists>s fields.
     findGuardDutyUserFunction scenarioEnv sampleViper () = Some (Return None, s) \<and>
     out s = [JSONLine fields] \<and>
     map_of fields ''assumeRoleARN'' = Some (JString ''arn:aws:iam::111:role/X'') \<and>
     map_of fields ''username'' = Some (JString ''alice'')"
proof (rule C1_end_to_end_scenario
    [where e = scenarioEnv and v = sampleViper and w = "()" and ?w0.0 = "()" and ?w1.0 = "()"
       and ?w2.0 = "()" and ?w3.0 = "()" and ?w4.0 = "()"
       and detectorID = "Some ''detector-1''" and findingId = "Some ''finding-1''"
       and page = "\<lparr>ListFindingsOutput_FindingIds = [Some ''finding-1''],
                     ListFindingsOutput_NextToken = None\<rparr>"
       and finding = "Some (sampleFinding (Some ''AKIA123'') None)"
       and fd = "sampleDetail (Some ''AKIA123'') None"
       and ?event1.0 = roleEvent and ?event2.0 = userEvent
       and data = "[(''userIdentity'', JObject [(''arn'', JString ''arn:aws:iam::111:role/X'')])]"
       and userIdentity = "[(''arn'', JString ''arn:aws:iam::111:role/X'')]"])
qed (simp_all add: detailOf_sample checkConfig_def checkRegion_def checkOutput_def
       scenarioEnv_def auditEnv_def sampleViper_def userEvent_def
       scenarioAudit_def roleEvent_def StringValue_def)

text \<open>
  C2. An answer of the audit log with no event or with more than one event is an error
  of \<open>LookupEvent\<close>. When a lookup made for a finding was answered with such a list of
  events, the loop goes on to the next finding (it neither panics nor exits), and all
  that was printed for the finding is one logged error: no identity.
\<close>

theorem C2_not_exactly_one_event:
  assumes "length events \<noteq> 1"
  shows "(fst (LookupEvents e (lookup key val) (world t)) = Inr events \<longrightarrow>
            fst (LookupEvent e key val t) = Inl (ExpectedExactlyOneEvent (length events))) \<and>
         (LookupEventsCall input (Inr events) \<in>
            set (callsSince s (flowState (processFinding e v finding s))) \<longrightarrow>
          (\<exists>s' err. processFinding e v finding s = Next s' \<and> out s' = out s @ [ErrorLine err]))"
proof (intro conjI impI)
  assume "fst (LookupEvents e (lookup key val) (world t)) = Inr events"
  with assms show "fst (LookupEvent e key val t) = Inl (ExpectedExactlyOneEvent (length events))"
    by (cases "LookupEvents e (lookup key val) (world t)") (simp add: LookupEvent_def)
next
  assume c: "LookupEventsCall input (Inr events) \<in>
            set (callsSince s (flowState (processFinding e v finding s)))"
  show "\<exists>s' err. processFinding e v finding s = Next s' \<and> out s' = out s @ [ErrorLine err]"
  proof (cases "detailOf finding")
    case None
    from processFinding_no_detail [OF this, of e v s] c show ?thesis by auto
  next
    case (Some fd)
    obtain r where r: "resolveFinding e v fd s = r" by simp
    from c Some r have c': "LookupEventsCall input (Inr events) \<in> set (callsSince s (flowState r))"
      by (simp add: processFinding_detail)
    have "\<exists>s' err. r = Next s' \<and> out s' = out s @ [ErrorLine err]"
      using r c' assms
      by (cases rule: resolveFinding_outcome) (auto simp: callsSince_def)
    with Some r show ?thesis by (simp add: processFinding_detail)
  qed
qed

theorem C2_not_exactly_one_event_witness:
  "fst (LookupEvent (auditEnv (\<lambda>attribute. Inr [Some roleEvent, Some userEvent]))
          ''AccessKeyId'' ''AKIA123'' start) = Inl (ExpectedExactlyOneEvent 2) \<and>
   LookupEventsCall (lookup ''AccessKeyId'' ''AKIA123'') (Inr [Some roleEvent, Some userEvent]) \<in>
     set (callsSince start (flowState
       (processFinding (auditEnv (\<lambda>attribute. Inr [Some roleEvent, Some userEvent])) sampleViper
          (Some (sampleFinding (Some ''AKIA123'') None)) start))) \<and>
   (\<exists>s' err.
      processFinding (auditEnv (\<lambda>attribute. Inr [Some roleEvent, Some userEvent])) sampleViper
        (Some (sampleFinding (Some ''AKIA123'') None)) start = Next s' \<and>
      out s' = [ErrorLine err])"
proof -
  let ?e = "auditEnv (\<lambda>attribute. Inr [Some roleEvent, Some userEvent])"
  have two: "length [Some roleEvent, Some userEvent] \<noteq> 1" by simp
  have made:
    "LookupEventsCall (lookup ''AccessKeyId'' ''AKIA123'') (Inr [Some roleEvent, Some userEvent]) \<in>
       set (callsSince start (flowState
         (processFinding ?e sampleViper (Some (sampleFinding (Some ''AKIA123'') None)) start)))"
    by (simp add: processFinding_detail detailOf_sample resolveFinding_def usable_def
          GetRoleAndUser_def LookupEvent_def callsSince_def)
  from C2_not_exactly_one_event [OF two, where e = ?e and key = "''AccessKeyId''"
      and val = "''AKIA123''" and t = start and s = start and v = sampleViper
      and input = "lookup ''AccessKeyId'' ''AKIA123''"
      and finding = "Some (sampleFinding (Some ''AKIA123'') None)"] made
  show ?thesis by simp
qed

text \<open>
  C3. The loop over the pages does not end for every behaviour of the service. In an
  account with one detector in which every request to list findings is answered with an
  error, line 399 goes back to the head of the loop with the continuation token
  unchanged, the same request is sent again, and \<open>findGuardDutyUserFunction\<close> never
  returns.
\<close>

theorem C3_denied_listing_never_returns:
  "findGuardDutyUserFunction deniedEnv sampleViper () = None"
proof -
  have "ListFindings deniedEnv input w = (Inl (External ''AccessDeniedException''), w)" for input w
    by (simp add: deniedEnv_def auditEnv_def)
  then have "pageLoop deniedEnv sampleViper detectorID token s = None" for detectorID token s
    by (intro pageLoop_never_ends) blast
  moreover have "ParseFlags deniedEnv = None" "BindPFlags deniedEnv = None"
    "credsGet deniedEnv = None" "NewSession deniedEnv = None"
    "ListDetectors deniedEnv w = (Inr [Some ''detector-1''], w)" for w
    by (simp_all add: deniedEnv_def auditEnv_def)
  ultimately show ?thesis
    by (simp add: findGuardDutyUserFunction_def)
qed

text \<open>
  C4. The order of the dispatch. For a finding that reaches the resolver with detail
  \<open>fd\<close>: when the access key id is present, not empty and not the placeholder, the first
  call is the lookup of \<open>AccessKeyId\<close> with that id; otherwise, when the principal id
  is present, not empty and not its placeholder, the first call is the lookup of
  \<open>ResourceName\<close> with that id; otherwise the state is unchanged, so there is no call
  and no output. A finding that does not reach the resolver causes no call and no
  identity line either.
\<close>

theorem C4_dispatch_order:
  "(\<forall>fd k. detailOf finding = Some fd \<and>
       AccessKeyID fd = Some k \<and> k \<noteq> [] \<and> k \<noteq> ''GeneratedFindingAccessKeyId'' \<longrightarrow>
       (\<exists>answer rest. calls (flowState (processFinding e v finding s)) =
          calls s @ LookupEventsCall (lookup ''AccessKeyId'' k) answer # rest)) \<and>
   (\<forall>fd p. detailOf finding = Some fd \<and>
       \<not> (\<exists>k. AccessKeyID fd = Some k \<and> k \<noteq> [] \<and> k \<noteq> ''GeneratedFindingAccessKeyId'') \<and>
       PrincipalID fd = Some p \<and> p \<noteq> [] \<and> p \<noteq> ''GeneratedFindingPrincipalId'' \<longrightarrow>
       (\<exists>answer rest. calls (flowState (processFinding e v finding s)) =
          calls s @ LookupEventsCall (lookup ''ResourceName'' p) answer # rest)) \<and>
   (\<forall>fd. detailOf finding = Some fd \<and>
       \<not> (\<exists>k. AccessKeyID fd = Some k \<and> k \<noteq> [] \<and> k \<noteq> ''GeneratedFindingAccessKeyId'') \<and>
       \<not> (\<exists>p. PrincipalID fd = Some p \<and> p \<noteq> [] \<and> p \<noteq> ''GeneratedFindingPrincipalId'') \<longrightarrow>
       processFinding e v finding s = Next s) \<and>
   (detailOf finding = None \<longrightarrow>
       calls (flowState (processFinding e v finding s)) = calls s \<and>
       (\<forall>x \<in> set (printedSince s (flowState (processFinding e v finding s))). \<not> identityLine x))"
proof (intro conjI allI impI)
  fix fd k
  assume a: "detailOf finding = Some fd \<and>
       AccessKeyID fd = Some k \<and> k \<noteq> [] \<and> k \<noteq> ''GeneratedFindingAccessKeyId''"
  then have "credential fd = Some (''AccessKeyId'', k)"
    by (simp add: credential_Some usable_Some)
  from resolveFinding_first_call [OF this] a
  show "\<exists>answer rest. calls (flowState (processFinding e v finding s)) =
          calls s @ LookupEventsCall (lookup ''AccessKeyId'' k) answer # rest"
    by (simp add: processFinding_detail)
next
  fix fd p
  assume a: "detailOf finding = Some fd \<and>
       \<not> (\<exists>k. AccessKeyID fd = Some k \<and> k \<noteq> [] \<and> k \<noteq> ''GeneratedFindingAccessKeyId'') \<and>
       PrincipalID fd = Some p \<and> p \<noteq> [] \<and> p \<noteq> ''GeneratedFindingPrincipalId''"
  then have "credential fd = Some (''ResourceName'', p)"
    by (simp add: credential_Some usable_Some usable_None)
  from resolveFinding_first_call [OF this] a
  show "\<exists>answer rest. calls (flowState (processFinding e v finding s)) =
          calls s @ LookupEventsCall (lookup ''ResourceName'' p) answer # rest"
    by (simp add: processFinding_detail)
next
  fix fd
  assume a: "detailOf finding = Some fd \<and>
       \<not> (\<exists>k. AccessKeyID fd = Some k \<and> k \<noteq> [] \<and> k \<noteq> ''GeneratedFindingAccessKeyId'') \<and>
       \<not> (\<exists>p. PrincipalID fd = Some p \<and> p \<noteq> [] \<and> p \<noteq> ''GeneratedFindingPrincipalId'')"
  then have "credential fd = None"
    by (simp add: credential_None usable_None)
  with a show "processFinding e v finding s = Next s"
    by (simp add: processFinding_detail resolveFinding_credential)
next
  assume "detailOf finding = None"
  from processFinding_no_detail [OF this, of e v s]
  show "calls (flowState (processFinding e v finding s)) = calls s"
    by auto
next
  assume "detailOf finding = None"
  from processFinding_no_detail [OF this, of e v s]
  show "\<forall>x \<in> set (printedSince s (flowState (processFinding e v finding s))). \<not> identityLine x"
    by (auto simp: printedSince_def)
qed

theorem C4_dispatch_order_witness:
  "(\<exists>answer rest.
      calls (flowState (processFinding (auditEnv (\<lambda>attribute. Inr [])) sampleViper
        (Some (sampleFinding (Some ''AKIA123'') (Some ''AIDA123''))) start)) =
      LookupEventsCall (lookup ''AccessKeyId'' ''AKIA123'') answer # rest) \<and>
   (\<exists>answer rest.
      calls (flowState (processFinding (auditEnv (\<lambda>attribute. Inr [])) sampleViper
        (Some (sampleFinding (Some ''GeneratedFindingAccessKeyId'') (Some ''AIDA123''))) start)) =
      LookupEventsCall (lookup ''ResourceName'' ''AIDA123'') answer # rest) \<and>
   processFinding (auditEnv (\<lambda>attribute. Inr [])) sampleViper
     (Some (sampleFinding (Some ''GeneratedFindingAccessKeyId'') None)) start = Next start \<and>
   calls (flowState (processFinding (auditEnv (\<lambda>attribute. Inr [])) sampleViper None start)) = []"
proof -
  let ?e = "auditEnv (\<lambda>attribute. Inr [])"
  have a: "\<exists>answer rest.
      calls (flowState (processFinding ?e sampleViper
        (Some (sampleFinding (Some ''AKIA123'') (Some ''AIDA123''))) start)) =
      LookupEventsCall (lookup ''AccessKeyId'' ''AKIA123'') answer # rest"
    using C4_dispatch_order [where e = ?e and v = sampleViper and s = start
        and finding = "Some (sampleFinding (Some ''AKIA123'') (Some ''AIDA123''))"]
    by (simp add: detailOf_sample)
  have b: "\<exists>answer rest.
      calls (flowState (processFinding ?e sampleViper
        (Some (sampleFinding (Some ''GeneratedFindingAccessKeyId'') (Some ''AIDA123''))) start)) =
      LookupEventsCall (lookup ''ResourceName'' ''AIDA123'') answer # rest"
    using C4_dispatch_order [where e = ?e and v = sampleViper and s = start
        and finding = "Some (sampleFinding (Some ''GeneratedFindingAccessKeyId'') (Some ''AIDA123''))"]
    by (simp add: detailOf_sample)
  have c: "processFinding ?e sampleViper
     (Some (sampleFinding (Some ''GeneratedFindingAccessKeyId'') None)) start = Next start"
    using C4_dispatch_order [where e = ?e and v = sampleViper and s = start
        and finding = "Some (sampleFinding (Some ''GeneratedFindingAccessKeyId'') None)"]
    by (simp add: detailOf_sample)
  have d: "calls (flowState (processFinding ?e sampleViper None start)) = []"
    using C4_dispatch_order [where e = ?e and v = sampleViper and s = start and finding = None]
    by (simp add: detailOf_def)
  from a b c d show ?thesis by simp
qed

text \<open>
  C5. What one finding adds to the output is either one identity, and then the finding
  reached the resolver with an access key id or a principal id that is not empty and
  not the placeholder, the identity printed has a role ARN that is not empty and a user
  name that is not nil, and nothing else was printed; or no identity line at all.
\<close>

theorem C5_identity_fully_populated:
  assumes "processFinding e v finding s = r"
  shows "(\<exists>fd val arn username.
            detailOf finding = Some fd \<and>
            (AccessKeyID fd = Some val \<and> val \<noteq> ''GeneratedFindingAccessKeyId'' \<or>
             PrincipalID fd = Some val \<and> val \<noteq> ''GeneratedFindingPrincipalId'') \<and>
            val \<noteq> [] \<and> arn \<noteq> [] \<and>
            r = Next (flowState r) \<and>
            out (flowState r) = out s @
              [printedIdentity v (fd\<lparr>AssumedRoleARN := Some arn, Username := Some username\<rparr>)]) \<or>
         (\<exists>log. out (flowState r) = out s @ log \<and> (\<forall>x \<in> set log. \<not> identityLine x))"
proof (cases "detailOf finding")
  case None
  from processFinding_no_detail [OF this, of e v s] assms show ?thesis by auto
next
  case (Some fd)
  with assms have r: "resolveFinding e v fd s = r"
    by (simp add: processFinding_detail)
  from r show ?thesis
  proof (cases rule: resolveFinding_outcome)
    case (direct key val event w arn username)
    from direct(1) have "(AccessKeyID fd = Some val \<and> val \<noteq> ''GeneratedFindingAccessKeyId'' \<or>
             PrincipalID fd = Some val \<and> val \<noteq> ''GeneratedFindingPrincipalId'') \<and> val \<noteq> []"
      by (auto simp: credential_Some usable_Some)
    with direct Some show ?thesis
      by (intro disjI1 exI [of _ fd] exI [of _ val] exI [of _ arn] exI [of _ username]) simp
  next
    case (second key val event w arn event2 w2)
    from second(1) have "(AccessKeyID fd = Some val \<and> val \<noteq> ''GeneratedFindingAccessKeyId'' \<or>
             PrincipalID fd = Some val \<and> val \<noteq> ''GeneratedFindingPrincipalId'') \<and> val \<noteq> []"
      by (auto simp: credential_Some usable_Some)
    with second Some show ?thesis
      by (intro disjI1 exI [of _ fd] exI [of _ val] exI [of _ arn]
            exI [of _ "StringValue (Event_Username event2)"]) simp
  qed auto
qed

theorem C5_identity_fully_populated_witness:
  "processFinding scenarioEnv sampleViper (Some (sampleFinding (Some ''AKIA123'') None)) start =
     Next \<lparr>world = (),
           out = [printedIdentity sampleViper
             ((sampleDetail (Some ''AKIA123'') None)
                \<lparr>AssumedRoleARN := Some ''arn:aws:iam::111:role/X'', Username := Some ''alice''\<rparr>)],
           calls =
             [LookupEventsCall (lookup ''AccessKeyId'' ''AKIA123'') (Inr [Some roleEvent]),
              LookupEventsCall (lookup ''ResourceName'' ''arn:aws:iam::111:role/X'')
                (Inr [Some userEvent])]\<rparr> \<and>
   (\<exists>fd val arn username.
      detailOf (Some (sampleFinding (Some ''AKIA123'') None)) = Some fd \<and>
      (AccessKeyID fd = Some val \<and> val \<noteq> ''GeneratedFindingAccessKeyId'' \<or>
       PrincipalID fd = Some val \<and> val \<noteq> ''GeneratedFindingPrincipalId'') \<and>
      val \<noteq> [] \<and> arn \<noteq> [] \<and>
      [printedIdentity sampleViper
         ((sampleDetail (Some ''AKIA123'') None)
            \<lparr>AssumedRoleARN := Some ''arn:aws:iam::111:role/X'', Username := Some ''alice''\<rparr>)] =
      [printedIdentity sampleViper (fd\<lparr>AssumedRoleARN := Some arn, Username := Some username\<rparr>)])"
proof -
  let ?r = "Next \<lparr>world = (),
           out = [printedIdentity sampleViper
             ((sampleDetail (Some ''AKIA123'') None)
                \<lparr>AssumedRoleARN := Some ''arn:aws:iam::111:role/X'', Username := Some ''alice''\<rparr>)],
           calls =
             [LookupEventsCall (lookup ''AccessKeyId'' ''AKIA123'') (Inr [Some roleEvent]),
              LookupEventsCall (lookup ''ResourceName'' ''arn:aws:iam::111:role/X'')
                (Inr [Some userEvent])]\<rparr>"
  have run: "processFinding scenarioEnv sampleViper
      (Some (sampleFinding (Some ''AKIA123'') None)) start = ?r"
    by (simp add: processFinding_detail detailOf_sample resolveFinding_def usable_def
          GetRoleAndUser_def LookupEvent_def finishFinding_def GetUser_def printOutput_Println
          Println_def start_def)
  have "identityLine (printedIdentity sampleViper fd)" for fd
    by (simp add: printedIdentity_def)
  with C5_identity_fully_populated [OF run] run show ?thesis
    by auto
qed

text \<open>
  C6. On the access key path, when the one event of the first lookup has an identity
  with a non-empty ARN and no user name (absent, not a string, or empty), the second
  call is the lookup of \<open>ResourceName\<close> with that ARN, whatever its answer; and when
  the answer is one event, the user name printed is the \<open>Username\<close> field of that event
  (the empty string when the field is nil). The payload of the second event plays no
  part.
\<close>

theorem C6_second_lookup_after_access_key:
  assumes "detailOf finding = Some fd"
    and "AccessKeyID fd = Some accessKey" "accessKey \<noteq> []"
      "accessKey \<noteq> ''GeneratedFindingAccessKeyId''"
    and "LookupEvents e (lookup ''AccessKeyId'' accessKey) (world s) = (Inr [Some event], w)"
    and "jsonUnmarshal e (StringValue (Event_CloudTrailEvent event)) = Inr data"
      "map_of data ''userIdentity'' = Some (JObject userIdentity)"
      "map_of userIdentity ''arn'' = Some (JString arn)"
    and "arn \<noteq> []"
    and "\<forall>u. map_of userIdentity ''userName'' = Some (JString u) \<longrightarrow> u = []"
    and "LookupEvents e (lookup ''ResourceName'' arn) w = (answer2, w2)"
  shows "calls (flowState (processFinding e v finding s)) =
           calls s @ [LookupEventsCall (lookup ''AccessKeyId'' accessKey) (Inr [Some event]),
                      LookupEventsCall (lookup ''ResourceName'' arn) answer2] \<and>
         (\<forall>event2. answer2 = Inr [Some event2] \<longrightarrow>
            (\<exists>s'. processFinding e v finding s = Next s' \<and>
               out s' = out s @
                 [printedIdentity v
                    (fd\<lparr>AssumedRoleARN := Some arn,
                        Username := Some (StringValue (Event_Username event2))\<rparr>)]))"
proof -
  have "credential fd = Some (''AccessKeyId'', accessKey)"
    using assms(2-4) by (simp add: credential_Some usable_Some)
  from second_lookup [OF this assms(5-11)] assms(1) show ?thesis
    by (simp add: processFinding_detail)
qed

theorem C6_second_lookup_after_access_key_witness:
  "calls (flowState (processFinding scenarioEnv sampleViper
      (Some (sampleFinding (Some ''AKIA123'') None)) start)) =
     [LookupEventsCall (lookup ''AccessKeyId'' ''AKIA123'') (Inr [Some roleEvent]),
      LookupEventsCall (lookup ''ResourceName'' ''arn:aws:iam::111:role/X'') (Inr [Some userEvent])] \<and>
   (\<exists>s'. processFinding scenarioEnv sampleViper
        (Some (sampleFinding (Some ''AKIA123'') None)) start = Next s' \<and>
      out s' =
        [printedIdentity sampleViper
           ((sampleDetail (Some ''AKIA123'') None)
              \<lparr>AssumedRoleARN := Some ''arn:aws:iam::111:role/X'', Username := Some ''alice''\<rparr>)])"
  using C6_second_lookup_after_access_key
    [of "Some (sampleFinding (Some ''AKIA123'') None)" "sampleDetail (Some ''AKIA123'') None"
        "''AKIA123''" scenarioEnv start roleEvent "()"
        "[(''userIdentity'', JObject [(''arn'', JString ''arn:aws:iam::111:role/X'')])]"
        "[(''arn'', JString ''arn:aws:iam::111:role/X'')]" "''arn:aws:iam::111:role/X''"
        "Inr [Some userEvent]" "()" sampleViper]
  by (simp add: detailOf_sample)




text \<open>
  C8. The output flag selects one of two formats: a configuration that passes
  \<open>checkOutput\<close> has the flag \<open>json\<close> or \<open>text\<close>; with \<open>json\<close> an identity is printed as
  one JSON object and with \<open>text\<close> as one text block. The JSON object has the fields
  \<open>id\<close>, \<open>createdAt\<close>, \<open>assumeRoleARN\<close> and \<open>username\<close> always, and each of the seven
  optional fields exactly when its pointer is not nil, with the string as its value, also
  when the string is empty. The text block is the one of the detail in which every
  optional field is present: a nil field is rendered as the empty string.
\<close>

theorem C8_output_modes:
  "(checkOutput v = None \<longrightarrow> OutputFlag v = ''json'' \<or> OutputFlag v = ''text'') \<and>
   (OutputFlag v = ''json'' \<longrightarrow> printOutput v fd s = Println (JSONLine (Marshal fd)) s) \<and>
   (OutputFlag v = ''text'' \<longrightarrow> printOutput v fd s = Println (TextBlock (Sprintf fd)) s) \<and>
   map fst (Marshal fd) =
     [''id'', ''createdAt''] @
     (if AccessKeyID fd = None then [] else [''accessKeyID'']) @
     (if PrincipalID fd = None then [] else [''principalID'']) @
     [''assumeRoleARN'', ''username''] @
     (if IPAddress fd = None then [] else [''ipAddress'']) @
     (if ServiceName fd = None then [] else [''serviceName'']) @
     (if API fd = None then [] else [''api'']) @
     (if City fd = None then [] else [''city'']) @
     (if Country fd = None then [] else [''country'']) \<and>
   map_of (Marshal fd) ''accessKeyID'' = map_option JString (AccessKeyID fd) \<and>
   map_of (Marshal fd) ''principalID'' = map_option JString (PrincipalID fd) \<and>
   map_of (Marshal fd) ''ipAddress'' = map_option JString (IPAddress fd) \<and>
   map_of (Marshal fd) ''serviceName'' = map_option JString (ServiceName fd) \<and>
   map_of (Marshal fd) ''api'' = map_option JString (API fd) \<and>
   map_of (Marshal fd) ''city'' = map_option JString (City fd) \<and>
   map_of (Marshal fd) ''country'' = map_option JString (Country fd) \<and>
   Sprintf fd =
     Sprintf (fd\<lparr>AccessKeyID := Some (StringValue (AccessKeyID fd)),
                 PrincipalID := Some (StringValue (PrincipalID fd)),
                 IPAddress := Some (StringValue (IPAddress fd)),
                 ServiceName := Some (StringValue (ServiceName fd)),
                 API := Some (StringValue (API fd)),
                 City := Some (StringValue (City fd)),
                 Country := Some (StringValue (Country fd))\<rparr>)"
proof -
  have modes: "checkOutput v = None \<longrightarrow> OutputFlag v = ''json'' \<or> OutputFlag v = ''text''"
    by (auto simp: checkOutput_None)
  have json: "OutputFlag v = ''json'' \<longrightarrow> printOutput v fd s = Println (JSONLine (Marshal fd)) s"
    by (simp add: printOutput_Println printedIdentity_def)
  have plain: "OutputFlag v = ''text'' \<longrightarrow> printOutput v fd s = Println (TextBlock (Sprintf fd)) s"
    by (simp add: printOutput_Println printedIdentity_def)
  have block: "Sprintf fd =
     Sprintf (fd\<lparr>AccessKeyID := Some (StringValue (AccessKeyID fd)),
                 PrincipalID := Some (StringValue (PrincipalID fd)),
                 IPAddress := Some (StringValue (IPAddress fd)),
                 ServiceName := Some (StringValue (ServiceName fd)),
                 API := Some (StringValue (API fd)),
                 City := Some (StringValue (City fd)),
                 Country := Some (StringValue (Country fd))\<rparr>)"
    by (simp add: Sprintf_def StringValue_def)
  from modes json plain Marshal_names [of fd] Marshal_optional [of fd] block show ?thesis
    by (intro conjI)
qed

theorem C8_output_modes_witness:
  "checkOutput sampleViper = None \<and>
   printOutput sampleViper
     ((sampleDetail (Some ''AKIA123'') None)
        \<lparr>AssumedRoleARN := Some ''arn:aws:iam::111:role/X'', Username := Some ''alice''\<rparr>) start =
     Println (JSONLine
       [(''id'', JString ''finding-1''), (''createdAt'', JString ''2020-06-01T12:00:00Z''),
        (''accessKeyID'', JString ''AKIA123''),
        (''assumeRoleARN'', JString ''arn:aws:iam::111:role/X''),
        (''username'', JString ''alice'')]) start \<and>
   checkOutput (sampleViper\<lparr>OutputFlag := ''text''\<rparr>) = None \<and>
   printOutput (sampleViper\<lparr>OutputFlag := ''text''\<rparr>)
     ((sampleDetail (Some ''AKIA123'') None)
        \<lparr>AssumedRoleARN := Some ''arn:aws:iam::111:role/X'', Username := Some ''alice''\<rparr>) start =
     Println (TextBlock (template
       [''finding-1'', ''2020-06-01T12:00:00Z'', ''AKIA123'', [],
        ''arn:aws:iam::111:role/X'', ''alice'', [], [], [], [], []])) start"
proof -
  let ?fd = "(sampleDetail (Some ''AKIA123'') None)
        \<lparr>AssumedRoleARN := Some ''arn:aws:iam::111:role/X'', Username := Some ''alice''\<rparr>"
  have ok: "checkOutput sampleViper = None" "checkOutput (sampleViper\<lparr>OutputFlag := ''text''\<rparr>) = None"
    by (simp_all add: checkOutput_def sampleViper_def)
  have m: "Marshal ?fd =
       [(''id'', JString ''finding-1''), (''createdAt'', JString ''2020-06-01T12:00:00Z''),
        (''accessKeyID'', JString ''AKIA123''),
        (''assumeRoleARN'', JString ''arn:aws:iam::111:role/X''),
        (''username'', JString ''alice'')]"
    by (simp add: Marshal_def always_def omitempty_def sampleDetail_def)
  have t: "Sprintf ?fd = template
       [''finding-1'', ''2020-06-01T12:00:00Z'', ''AKIA123'', [],
        ''arn:aws:iam::111:role/X'', ''alice'', [], [], [], [], []]"
    by (simp add: Sprintf_def StringValue_def sampleDetail_def)
  have j: "OutputFlag sampleViper = ''json''"
    and x: "OutputFlag (sampleViper\<lparr>OutputFlag := ''text''\<rparr>) = ''text''"
    by (simp_all add: sampleViper_def)
  from C8_output_modes [of sampleViper ?fd start]
    C8_output_modes [of "sampleViper\<lparr>OutputFlag := ''text''\<rparr>" ?fd start] ok j x
  show ?thesis
    unfolding m t by simp
qed

text \<open>
  The statement of C8 as it was first put, with every empty optional field left out of
  the JSON object, fails for a field that is present and holds the empty string. A
  finding with an empty access key id and the principal id \<open>AIDA123\<close> is resolved
  through the principal id, and the line printed for it has the field \<open>accessKeyID\<close>
  with the empty string as its value.
\<close>

theorem C8_empty_string_counterexample:
  "out (flowState (processFinding scenarioEnv sampleViper
          (Some (sampleFinding (Some []) (Some ''AIDA123''))) start)) =
     [JSONLine
        [(''id'', JString ''finding-1''), (''createdAt'', JString ''2020-06-01T12:00:00Z''),
         (''accessKeyID'', JString []), (''principalID'', JString ''AIDA123''),
         (''assumeRoleARN'', JString ''arn:aws:iam::111:role/X''),
         (''username'', JString ''alice'')]]"
  by (simp add: processFinding_detail detailOf_sample resolveFinding_def usable_def
        GetRoleAndUser_def LookupEvent_def finishFinding_def GetUser_def printOutput_Println
        printedIdentity_def sampleViper_def Marshal_def always_def omitempty_def
        sampleDetail_def Println_def start_def)

text \<open>
  C9. Every request that \<open>LookupEvent\<close> sends asks for at most one event
  (\<open>MaxResults\<close> is 1). When the audit log keeps to that bound, the error
  \<open>ExpectedExactlyOneEvent\<close> can only report zero events: the case of more than one
  event cannot happen.
\<close>

theorem C9_lookup_capped_at_one:
  assumes "LookupEvent e key val s = (r, s')"
  shows "\<exists>input answer.
           callsSince s s' = [LookupEventsCall input answer] \<and>
           answer = fst (LookupEvents e input (world s)) \<and>
           LookupEventsInput_MaxResults input = 1 \<and>
           ((\<forall>events. answer = Inr events \<longrightarrow>
               int (length events) \<le> LookupEventsInput_MaxResults input) \<longrightarrow>
            (\<forall>n. r = Inl (ExpectedExactlyOneEvent n) \<longrightarrow> n = 0))"
proof (cases "LookupEvents e (lookup key val) (world s)")
  case (Pair answer w)
  with assms have s': "s' = looked s key val answer w"
    by (auto simp: LookupEvent_def Let_def split: sum.splits if_splits)
  have n: "\<exists>events. answer = Inr events \<and> n = length events \<and> n \<noteq> 1"
    if "r = Inl (ExpectedExactlyOneEvent n)" for n
    using assms Pair that by (auto simp: LookupEvent_def Let_def split: sum.splits if_splits)
  have "(\<forall>events. answer = Inr events \<longrightarrow> int (length events) \<le> 1) \<longrightarrow>
      (\<forall>n. r = Inl (ExpectedExactlyOneEvent n) \<longrightarrow> n = 0)"
  proof (intro impI allI)
    fix n
    assume cap: "\<forall>events. answer = Inr events \<longrightarrow> int (length events) \<le> 1"
      and "r = Inl (ExpectedExactlyOneEvent n)"
    then obtain events where "answer = Inr events" "n = length events" "n \<noteq> 1"
      using n by blast
    with cap have "int n \<le> 1" by simp
    with \<open>n \<noteq> 1\<close> show "n = 0" by arith
  qed
  with s' Pair show ?thesis
    by (intro exI [of _ "lookup key val"] exI [of _ answer]) (simp add: callsSince_def)
qed

theorem C9_lookup_capped_at_one_witness:
  "LookupEvent (auditEnv (\<lambda>_. Inr [])) ''AccessKeyId'' ''AKIA123'' start =
     (Inl (ExpectedExactlyOneEvent 0), looked start ''AccessKeyId'' ''AKIA123'' (Inr []) ()) \<and>
   (\<exists>input answer.
      callsSince start (looked start ''AccessKeyId'' ''AKIA123'' (Inr []) ()) =
        [LookupEventsCall input answer] \<and>
      answer = fst (LookupEvents (auditEnv (\<lambda>_. Inr [])) input (world start)) \<and>
      LookupEventsInput_MaxResults input = 1 \<and>
      ((\<forall>events. answer = Inr events \<longrightarrow>
          int (length events) \<le> LookupEventsInput_MaxResults input) \<longrightarrow>
       (\<forall>n. (Inl (ExpectedExactlyOneEvent 0) :: error + cloudtrail_Event option) =
          Inl (ExpectedExactlyOneEvent n) \<longrightarrow> n = 0)))"
proof -
  have run: "LookupEvent (auditEnv (\<lambda>_. Inr [])) ''AccessKeyId'' ''AKIA123'' start =
      (Inl (ExpectedExactlyOneEvent 0), looked start ''AccessKeyId'' ''AKIA123'' (Inr []) ())"
    by (simp add: LookupEvent_def auditEnv_def start_def)
  from run C9_lookup_capped_at_one [OF run] show ?thesis
    by (rule conjI)
qed

text \<open>
  C10. The same second lookup on the principal id path: the access key id cannot be
  used, the principal id can, and the one event found for it has an identity with a
  non-empty ARN and no user name.
\<close>

theorem C10_second_lookup_after_principal_id:
  assumes "detailOf finding = Some fd"
    and "\<not> (\<exists>k. AccessKeyID fd = Some k \<and> k \<noteq> [] \<and> k \<noteq> ''GeneratedFindingAccessKeyId'')"
    and "PrincipalID fd = Some principalId" "principalId \<noteq> []"
      "principalId \<noteq> ''GeneratedFindingPrincipalId''"
    and "LookupEvents e (lookup ''ResourceName'' principalId) (world s) = (Inr [Some event], w)"
    and "jsonUnmarshal e (StringValue (Event_CloudTrailEvent event)) = Inr data"
      "map_of data ''userIdentity'' = Some (JObject userIdentity)"
      "map_of userIdentity ''arn'' = Some (JString arn)"
    and "arn \<noteq> []"
    and "\<forall>u. map_of userIdentity ''userName'' = Some (JString u) \<longrightarrow> u = []"
    and "LookupEvents e (lookup ''ResourceName'' arn) w = (answer2, w2)"
  shows "calls (flowState (processFinding e v finding s)) =
           calls s @ [LookupEventsCall (lookup ''ResourceName'' principalId) (Inr [Some event]),
                      LookupEventsCall (lookup ''ResourceName'' arn) answer2] \<and>
         (\<forall>event2. answer2 = Inr [Some event2] \<longrightarrow>
            (\<exists>s'. processFinding e v finding s = Next s' \<and>
               out s' = out s @
                 [printedIdentity v
                    (fd\<lparr>AssumedRoleARN := Some arn,
                        Username := Some (StringValue (Event_Username event2))\<rparr>)]))"
proof -
  have "credential fd = Some (''ResourceName'', principalId)"
    using assms(2-5) by (simp add: credential_Some usable_Some usable_None)
  from second_lookup [OF this assms(6-12)] assms(1) show ?thesis
    by (simp add: processFinding_detail)
qed

theorem C10_second_lookup_after_principal_id_witness:
  "calls (flowState (processFinding scenarioEnv sampleViper
      (Some (sampleFinding (Some ''GeneratedFindingAccessKeyId'') (Some ''AIDA123''))) start)) =
     [LookupEventsCall (lookup ''ResourceName'' ''AIDA123'') (Inr [Some roleEvent]),
      LookupEventsCall (lookup ''ResourceName'' ''arn:aws:iam::111:role/X'') (Inr [Some userEvent])] \<and>
   (\<exists>s'. processFinding scenarioEnv sampleViper
        (Some (sampleFinding (Some ''GeneratedFindingAccessKeyId'') (Some ''AIDA123''))) start =
        Next s' \<and>
      out s' =
        [printedIdentity sampleViper
           ((sampleDetail (Some ''GeneratedFindingAccessKeyId'') (Some ''AIDA123''))
              \<lparr>AssumedRoleARN := Some ''arn:aws:iam::111:role/X'', Username := Some ''alice''\<rparr>)])"
  using C10_second_lookup_after_principal_id
    [of "Some (sampleFinding (Some ''GeneratedFindingAccessKeyId'') (Some ''AIDA123''))"
        "sampleDetail (Some ''GeneratedFindingAccessKeyId'') (Some ''AIDA123'')"
        "''AIDA123''" scenarioEnv start roleEvent "()"
        "[(''userIdentity'', JObject [(''arn'', JString ''arn:aws:iam::111:role/X'')])]"
        "[(''arn'', JString ''arn:aws:iam::111:role/X'')]" "''arn:aws:iam::111:role/X''"
        "Inr [Some userEvent]" "()" sampleViper]
  by (simp add: detailOf_sample)

end
